theory Spec2Isabelle
  imports Complex_Main
begin

section \<open>The marketplace schema of app/models.py\<close>

text \<open>
  The source file is a declarative schema: three enumerations, ten persistent entities
  (\<^verbatim>\<open>table=True\<close>) and eleven transient request shapes (\<^verbatim>\<open>table=False\<close>), every
  attribute declared by a type annotation and a \<^verbatim>\<open>Field(...)\<close> with constraints.
  The embedding keeps that form. A model is the list of its field declarations, in
  source order, and the meaning of a declaration is given once, by the validation
  function \<open>model_validate\<close> below, which does what the validation layer does with the
  declared constraints: a missing attribute takes its default, a present one is checked
  against its type and then against the constraints of its \<^verbatim>\<open>Field\<close>.
  Validation is what \<^verbatim>\<open>Model.model_validate(data)\<close> does. An entity that the
  object-relational layer instantiates directly, from keyword arguments or from a row of
  the database, does not pass through it.

  Conventions.
  \<^item> Python integers are unbounded: \<open>int\<close>.
  \<^item> Strings are \<open>string\<close>; lengths count characters, which agrees with Python on ASCII.
  \<^item> \<^verbatim>\<open>datetime.utcnow\<close> reads the clock; the clock value is the parameter \<open>now\<close>.
  \<^item> An input value is a \<open>val\<close>: \<^verbatim>\<open>None\<close>, an integer, a string, a truth value, a finite
    decimal, a point in time, a member of an enumeration, a list or a dictionary. The
    validation layer works in its lax mode, and \<open>coerce\<close> below lists the conversions
    between these kinds of value. Binary floating point numbers and byte strings are not
    values of the model.
  \<^item> \<^verbatim>\<open>Relationship(...)\<close> attributes are navigation properties, not columns; they carry
    no constraint and are not listed.
\<close>

subsection \<open>Enumerations\<close>

datatype UserRole = BUYER | SELLER | ADMIN

datatype OrderStatus =
  OS_PENDING | OS_CONFIRMED | OS_PROCESSING | OS_SHIPPED | OS_DELIVERED | OS_CANCELLED | OS_RETURNED

datatype DeliveryStatus =
  DS_PENDING | DS_PICKED_UP | DS_IN_TRANSIT | DS_OUT_FOR_DELIVERY | DS_DELIVERED | DS_FAILED
  | DS_RETURNED

fun UserRole_value :: "UserRole \<Rightarrow> string" where
  "UserRole_value BUYER = ''buyer''"
| "UserRole_value SELLER = ''seller''"
| "UserRole_value ADMIN = ''admin''"

fun OrderStatus_value :: "OrderStatus \<Rightarrow> string" where
  "OrderStatus_value OS_PENDING = ''pending''"
| "OrderStatus_value OS_CONFIRMED = ''confirmed''"
| "OrderStatus_value OS_PROCESSING = ''processing''"
| "OrderStatus_value OS_SHIPPED = ''shipped''"
| "OrderStatus_value OS_DELIVERED = ''delivered''"
| "OrderStatus_value OS_CANCELLED = ''cancelled''"
| "OrderStatus_value OS_RETURNED = ''returned''"

fun DeliveryStatus_value :: "DeliveryStatus \<Rightarrow> string" where
  "DeliveryStatus_value DS_PENDING = ''pending''"
| "DeliveryStatus_value DS_PICKED_UP = ''picked_up''"
| "DeliveryStatus_value DS_IN_TRANSIT = ''in_transit''"
| "DeliveryStatus_value DS_OUT_FOR_DELIVERY = ''out_for_delivery''"
| "DeliveryStatus_value DS_DELIVERED = ''delivered''"
| "DeliveryStatus_value DS_FAILED = ''failed''"
| "DeliveryStatus_value DS_RETURNED = ''returned''"

text \<open>Looking a member up by its value, as \<^verbatim>\<open>UserRole("buyer")\<close> does.\<close>

definition enum_of_value :: "('a \<Rightarrow> string) \<Rightarrow> 'a list \<Rightarrow> string \<Rightarrow> 'a option" where
  "enum_of_value value_of members s = find (\<lambda>x. value_of x = s) members"

definition UserRole_members :: "UserRole list" where
  "UserRole_members = [BUYER, SELLER, ADMIN]"

definition OrderStatus_members :: "OrderStatus list" where
  "OrderStatus_members =
     [OS_PENDING, OS_CONFIRMED, OS_PROCESSING, OS_SHIPPED, OS_DELIVERED, OS_CANCELLED, OS_RETURNED]"

definition DeliveryStatus_members :: "DeliveryStatus list" where
  "DeliveryStatus_members =
     [DS_PENDING, DS_PICKED_UP, DS_IN_TRANSIT, DS_OUT_FOR_DELIVERY, DS_DELIVERED, DS_FAILED,
      DS_RETURNED]"

subsection \<open>Exact decimals\<close>

text \<open>
  A finite \<^verbatim>\<open>decimal.Decimal\<close> is what \<^verbatim>\<open>as_tuple()\<close> shows: a sign, the digits of the
  coefficient and an exponent. The digits have no leading zero (a lone \<open>0\<close> excepted), so
  the coefficient is a natural number. The value is the rational number
  \<open>\<plusminus> coefficient * 10 ^ exponent\<close>; no rounding takes place when a decimal is read or
  stored.
\<close>

record Decimal =
  dsign :: bool
  dcoeff :: nat
  dexp :: int


text \<open>The number of digits of a coefficient; \<open>0\<close> has the one digit \<open>0\<close>.\<close>

fun ndigits :: "nat \<Rightarrow> nat" where
  "ndigits n = (if n < 10 then 1 else Suc (ndigits (n div 10)))"

declare ndigits.simps [simp del]

definition is_digit :: "char \<Rightarrow> bool" where
  "is_digit c = (c \<in> set ''0123456789'')"

text \<open>The value of a digit character is its position in \<^verbatim>\<open>"0123456789"\<close>.\<close>

definition digit_val :: "char \<Rightarrow> nat" where
  "digit_val c = length (takeWhile (\<lambda>d. d \<noteq> c) ''0123456789'')"

definition nat_of_digits :: "nat list \<Rightarrow> nat" where
  "nat_of_digits ds = foldl (\<lambda>a d. 10 * a + d) 0 ds"

text \<open>
  White space, as \<^verbatim>\<open>str.strip()\<close> removes it from the ends of an ASCII string, and as the
  integer parser of the validation layer does (it does not count the four separator
  characters \<open>0x1C\<close> to \<open>0x1F\<close>).
\<close>

definition is_space :: "char \<Rightarrow> bool" where
  "is_space c =
     (c \<in> set [CHR 0x09, CHR 0x0A, CHR 0x0B, CHR 0x0C, CHR 0x0D, CHR 0x1C, CHR 0x1D, CHR 0x1E,
               CHR 0x1F, CHR 0x20])"

definition is_space_int :: "char \<Rightarrow> bool" where
  "is_space_int c = (c \<in> set [CHR 0x09, CHR 0x0A, CHR 0x0B, CHR 0x0C, CHR 0x0D, CHR 0x20])"

definition strip :: "(char \<Rightarrow> bool) \<Rightarrow> string \<Rightarrow> string" where
  "strip sp s = rev (dropWhile sp (rev (dropWhile sp s)))"

definition split_sign :: "string \<Rightarrow> bool \<times> string" where
  "split_sign s =
     (case s of
        [] \<Rightarrow> (False, [])
      | c # r \<Rightarrow> if c = CHR ''-'' then (True, r) else if c = CHR ''+'' then (False, r)
                 else (False, s))"

text \<open>An optional sign and one or more digits, read as an integer.\<close>

definition signed_digits :: "string \<Rightarrow> int option" where
  "signed_digits s =
     (let (neg, u) = split_sign s
      in if u \<noteq> [] \<and> list_all is_digit u
         then Some (if neg then - int (nat_of_digits (map digit_val u))
                    else int (nat_of_digits (map digit_val u)))
         else None)"

text \<open>
  \<^verbatim>\<open>Decimal(s)\<close> for a string: white space at the ends and underscores anywhere are
  dropped; then come an optional sign, digits with an optional point (at least one digit
  before or after it) and an optional exponent \<^verbatim>\<open>E\<close> with a signed run of digits. The
  coefficient is the integer that the digits before and after the point spell, the
  exponent is the written one less the number of digits after the point. (Python also
  reads \<^verbatim>\<open>Infinity\<close> and \<^verbatim>\<open>NaN\<close>, as decimals that are not finite; every decimal field
  of the schema refuses those, and so does this function.)
\<close>

definition Decimal_of_str :: "string \<Rightarrow> Decimal option" where
  "Decimal_of_str s =
     (let t = filter (\<lambda>c. c \<noteq> CHR ''_'') (strip is_space s);
          (neg, u) = split_sign t;
          ip = takeWhile is_digit u;
          r1 = dropWhile is_digit u;
          (fp, r2) = (case r1 of
                        [] \<Rightarrow> ([], [])
                      | c # r \<Rightarrow> if c = CHR ''.'' then (takeWhile is_digit r, dropWhile is_digit r)
                                 else ([], r1));
          ex = (case r2 of
                  [] \<Rightarrow> Some 0
                | c # r \<Rightarrow> if c = CHR ''e'' \<or> c = CHR ''E'' then signed_digits r else None)
      in if ip = [] \<and> fp = [] then None
         else map_option
                (\<lambda>e. \<lparr>dsign = neg, dcoeff = nat_of_digits (map digit_val (ip @ fp)),
                       dexp = e - int (length fp)\<rparr>) ex)"

definition Decimal_of_int :: "int \<Rightarrow> Decimal" where
  "Decimal_of_int i = \<lparr>dsign = (i < 0), dcoeff = nat \<bar>i\<bar>, dexp = 0\<rparr>"

text \<open>
  \<^verbatim>\<open>normalize()\<close> works in the arithmetic context, whose default precision is 28 digits:
  a coefficient of more digits is first rounded to 28, half to even, and the exponent
  raised by the number of digits dropped. Then the trailing zeros of the coefficient are
  stripped and the exponent raised by as many; zero becomes the coefficient \<open>0\<close> with
  exponent \<open>0\<close>.
\<close>

definition context_prec :: nat where
  "context_prec = 28"

definition round_half_even :: "nat \<Rightarrow> nat \<Rightarrow> nat" where
  "round_half_even c m =
     (let q = c div 10 ^ m; r = c mod 10 ^ m; h = 5 * 10 ^ (m - 1)
      in if h < r \<or> (r = h \<and> odd q) then q + 1 else q)"

fun trailing_zeros :: "nat \<Rightarrow> nat" where
  "trailing_zeros n = (if n = 0 \<or> n mod 10 \<noteq> 0 then 0 else Suc (trailing_zeros (n div 10)))"

declare trailing_zeros.simps [simp del]

definition normalize_dec :: "Decimal \<Rightarrow> Decimal" where
  "normalize_dec d =
     (let n = ndigits (dcoeff d);
          (c, e) = (if context_prec < n
                    then (round_half_even (dcoeff d) (n - context_prec),
                          dexp d + int (n - context_prec))
                    else (dcoeff d, dexp d))
      in if c = 0 then \<lparr>dsign = dsign d, dcoeff = 0, dexp = 0\<rparr>
         else let k = trailing_zeros c
              in \<lparr>dsign = dsign d, dcoeff = c div 10 ^ k, dexp = e + int k\<rparr>)"

text \<open>
  The digit count the decimal validator works with: the total number of digits and the
  number of digits after the point of the normalised value.
\<close>

definition decimal_digit_info :: "Decimal \<Rightarrow> nat \<times> nat" where
  "decimal_digit_info d =
     (let n = normalize_dec d; len = ndigits (dcoeff n); e = dexp n
      in if e \<ge> 0 then (len + nat e, 0)
         else if nat (- e) > len then (nat (- e), nat (- e))
         else (len, nat (- e)))"


text \<open>
  An integer from a string, as the validation layer reads it: white space at the ends
  dropped, then an optional sign and digits. (The layer reads a few more spellings, digits
  grouped by underscores and digits followed by a point and zeros; here they are not
  integers. No statement below rests on a string failing to be read.) A truth value from
  a string: one of twelve words, in any case.
\<close>

definition int_of_str :: "string \<Rightarrow> int option" where
  "int_of_str s = signed_digits (strip is_space_int s)"

definition to_lower :: "char \<Rightarrow> char" where
  "to_lower c =
     (case map_of (zip ''ABCDEFGHIJKLMNOPQRSTUVWXYZ'' ''abcdefghijklmnopqrstuvwxyz'') c of
        Some l \<Rightarrow> l
      | None \<Rightarrow> c)"

definition bool_of_str :: "string \<Rightarrow> bool option" where
  "bool_of_str s =
     (let w = map to_lower s
      in if w \<in> set [''1'', ''on'', ''t'', ''true'', ''y'', ''yes''] then Some True
         else if w \<in> set [''0'', ''off'', ''f'', ''false'', ''n'', ''no''] then Some False
         else None)"

text \<open>A decimal that is a whole number, as that number.\<close>

definition int_of_decimal :: "Decimal \<Rightarrow> int option" where
  "int_of_decimal d =
     (let c = int (dcoeff d); s = (if dsign d then - 1 else 1)
      in if 0 \<le> dexp d then Some (s * c * 10 ^ nat (dexp d))
         else if c mod 10 ^ nat (- dexp d) = 0 then Some (s * (c div 10 ^ nat (- dexp d)))
         else None)"

subsection \<open>Regular expressions\<close>

text \<open>
  The patterns of the schema are anchored at both ends (\<^verbatim>\<open>^...$\<close>), so matching is
  matching of the whole string; the end of the pattern is taken as the end of the string
  (a line terminator after the address is not accepted). A character class is the list of
  its characters. The matcher takes the derivative of the expression by each character in
  turn.
\<close>

datatype rexp =
  Zero
| One
| Atom "char list"
| Alt rexp rexp
| Times rexp rexp
| Star rexp

definition Plus :: "rexp \<Rightarrow> rexp" where
  "Plus r = Times r (Star r)"

fun nullable :: "rexp \<Rightarrow> bool" where
  "nullable Zero = False"
| "nullable One = True"
| "nullable (Atom cs) = False"
| "nullable (Alt r s) = (nullable r \<or> nullable s)"
| "nullable (Times r s) = (nullable r \<and> nullable s)"
| "nullable (Star r) = True"

fun deriv :: "char \<Rightarrow> rexp \<Rightarrow> rexp" where
  "deriv c Zero = Zero"
| "deriv c One = Zero"
| "deriv c (Atom cs) = (if c \<in> set cs then One else Zero)"
| "deriv c (Alt r s) = Alt (deriv c r) (deriv c s)"
| "deriv c (Times r s) =
     (if nullable r then Alt (Times (deriv c r) s) (deriv c s) else Times (deriv c r) s)"
| "deriv c (Star r) = Times (deriv c r) (Star r)"

fun re_match :: "rexp \<Rightarrow> string \<Rightarrow> bool" where
  "re_match r [] = nullable r"
| "re_match r (c # cs) = re_match (deriv c r) cs"

definition alnum :: "char list" where
  "alnum = ''abcdefghijklmnopqrstuvwxyzABCDEFGHIJKLMNOPQRSTUVWXYZ0123456789''"

text \<open>\<^verbatim>\<open>[a-zA-Z0-9_.+-]\<close>, \<^verbatim>\<open>[a-zA-Z0-9-]\<close> and \<^verbatim>\<open>[a-zA-Z0-9-.]\<close>.\<close>

definition local_chars :: "char list" where
  "local_chars = alnum @ ''_.+-''"

definition domain_chars :: "char list" where
  "domain_chars = alnum @ ''-''"

definition tld_chars :: "char list" where
  "tld_chars = alnum @ ''-.''"

text \<open>\<^verbatim>\<open>^[a-zA-Z0-9_.+-]+@[a-zA-Z0-9-]+\.[a-zA-Z0-9-.]+$\<close>\<close>

definition email_regex :: rexp where
  "email_regex =
     Times (Plus (Atom local_chars))
       (Times (Atom ''@'')
          (Times (Plus (Atom domain_chars))
             (Times (Atom ''.'') (Plus (Atom tld_chars)))))"

subsection \<open>Values, types and field declarations\<close>

datatype val =
  VNone
| VInt int
| VStr string
| VBool bool
| VDecimal Decimal
| VDatetime nat
| VUserRole UserRole
| VOrderStatus OrderStatus
| VDeliveryStatus DeliveryStatus
| VList "val list"
| VDict "(string \<times> val) list"

datatype ftype =
  TInt
| TStr
| TBool
| TDecimal
| TDatetime
| TUserRole
| TOrderStatus
| TDeliveryStatus
| TListStr
| TDictStrAny
| TOptional ftype

datatype default_decl =
  Required
| Default val
| DefaultFactoryUtcnow

record FieldInfo =
  dflt :: default_decl
  primary_key :: bool
  foreign_key :: "string option"
  unique :: bool
  max_length :: "nat option"
  min_length :: "nat option"
  regex :: "rexp option"
  pattern :: "rexp option"
  ge :: "int option"
  le :: "int option"
  max_digits :: "nat option"
  decimal_places :: "nat option"
  sa_column_json :: bool

text \<open>\<^verbatim>\<open>Field()\<close> with no argument; a declaration overrides what it names.\<close>

definition Field :: FieldInfo where
  "Field = \<lparr>dflt = Required, primary_key = False, foreign_key = None, unique = False,
            max_length = None, min_length = None, regex = None, pattern = None, ge = None,
            le = None,
            max_digits = None, decimal_places = None, sa_column_json = False\<rparr>"

record FieldDef =
  fname :: string
  ftyp :: ftype
  finfo :: FieldInfo

record Model =
  tablename :: "string option"
  model_fields :: "FieldDef list"

definition fld :: "string \<Rightarrow> ftype \<Rightarrow> FieldInfo \<Rightarrow> FieldDef" where
  "fld n t i = \<lparr>fname = n, ftyp = t, finfo = i\<rparr>"

subsection \<open>Validation\<close>

datatype err_kind =
  Missing
| TypeError
| MinLengthError nat
| MaxLengthError nat
| PatternError
| NotGeError int
| NotLeError int
| DecimalMaxDigitsError nat
| DecimalMaxPlacesError nat
| DecimalWholeDigitsError nat

type_synonym error = "string \<times> err_kind"

fun is_str :: "val \<Rightarrow> bool" where
  "is_str (VStr s) = True"
| "is_str v = False"

text \<open>
  The conversions of the lax mode; \<open>None\<close> is a type error. An \<^verbatim>\<open>int\<close> is read from an
  integer, a truth value, a string of digits or a decimal that is a whole number; a
  \<^verbatim>\<open>Decimal\<close> from a decimal, an integer or a string; a \<^verbatim>\<open>bool\<close> from a truth value, the
  integers 0 and 1 or one of the twelve words; a member of an enumeration from its value;
  a \<^verbatim>\<open>str\<close> from a string only. A point in time is read from a point in time; the texts
  and numbers that the layer parses as one are not modelled, the clock being abstract.
\<close>

fun coerce :: "ftype \<Rightarrow> val \<Rightarrow> val option" where
  "coerce (TOptional t) v = (if v = VNone then Some VNone else coerce t v)"
| "coerce TInt v =
     (case v of
        VInt i \<Rightarrow> Some (VInt i)
      | VBool b \<Rightarrow> Some (VInt (if b then 1 else 0))
      | VStr s \<Rightarrow> map_option VInt (int_of_str s)
      | VDecimal d \<Rightarrow> map_option VInt (int_of_decimal d)
      | _ \<Rightarrow> None)"
| "coerce TStr v = (case v of VStr s \<Rightarrow> Some (VStr s) | _ \<Rightarrow> None)"
| "coerce TBool v =
     (case v of
        VBool b \<Rightarrow> Some (VBool b)
      | VInt i \<Rightarrow> if i = 0 then Some (VBool False) else if i = 1 then Some (VBool True) else None
      | VStr s \<Rightarrow> map_option VBool (bool_of_str s)
      | _ \<Rightarrow> None)"
| "coerce TDecimal v =
     (case v of
        VDecimal d \<Rightarrow> Some (VDecimal d)
      | VInt i \<Rightarrow> Some (VDecimal (Decimal_of_int i))
      | VStr s \<Rightarrow> map_option VDecimal (Decimal_of_str s)
      | _ \<Rightarrow> None)"
| "coerce TDatetime v = (case v of VDatetime t \<Rightarrow> Some (VDatetime t) | _ \<Rightarrow> None)"
| "coerce TUserRole v =
     (case v of
        VUserRole r \<Rightarrow> Some (VUserRole r)
      | VStr s \<Rightarrow> map_option VUserRole (enum_of_value UserRole_value UserRole_members s)
      | _ \<Rightarrow> None)"
| "coerce TOrderStatus v =
     (case v of
        VOrderStatus r \<Rightarrow> Some (VOrderStatus r)
      | VStr s \<Rightarrow> map_option VOrderStatus (enum_of_value OrderStatus_value OrderStatus_members s)
      | _ \<Rightarrow> None)"
| "coerce TDeliveryStatus v =
     (case v of
        VDeliveryStatus r \<Rightarrow> Some (VDeliveryStatus r)
      | VStr s \<Rightarrow>
          map_option VDeliveryStatus (enum_of_value DeliveryStatus_value DeliveryStatus_members s)
      | _ \<Rightarrow> None)"
| "coerce TListStr v =
     (case v of VList xs \<Rightarrow> if list_all is_str xs then Some (VList xs) else None | _ \<Rightarrow> None)"
| "coerce TDictStrAny v = (case v of VDict kvs \<Rightarrow> Some (VDict kvs) | _ \<Rightarrow> None)"

text \<open>
  The decimal validator: total digits against \<^verbatim>\<open>max_digits\<close>, digits after the point
  against \<^verbatim>\<open>decimal_places\<close>, and, when both are declared, digits before the point
  against their difference. The first violated bound is the error.
\<close>

definition check_decimal :: "FieldInfo \<Rightarrow> Decimal \<Rightarrow> err_kind option" where
  "check_decimal i d =
     (let (digits, decimals) = decimal_digit_info d;
          whole_digits = int digits - int decimals
      in case max_digits i of
           Some md \<Rightarrow> if digits > md then Some (DecimalMaxDigitsError md) else
             (case decimal_places i of
                Some dp \<Rightarrow> if decimals > dp then Some (DecimalMaxPlacesError dp)
                           else if whole_digits > int md - int dp
                           then Some (DecimalWholeDigitsError (md - dp)) else None
              | None \<Rightarrow> None)
         | None \<Rightarrow>
             (case decimal_places i of
                Some dp \<Rightarrow> if decimals > dp then Some (DecimalMaxPlacesError dp) else None
              | None \<Rightarrow> None))"

definition too_short :: "FieldInfo \<Rightarrow> string \<Rightarrow> bool" where
  "too_short i s = (case min_length i of Some n \<Rightarrow> length s < n | None \<Rightarrow> False)"

definition too_long :: "FieldInfo \<Rightarrow> string \<Rightarrow> bool" where
  "too_long i s = (case max_length i of Some n \<Rightarrow> length s > n | None \<Rightarrow> False)"

text \<open>
  The string validator reads the keyword \<^verbatim>\<open>pattern\<close>. It does not read \<^verbatim>\<open>regex\<close>, the
  name that the keyword had in the previous major version of the validation layer: what
  a declaration passes as \<^verbatim>\<open>regex=\<close> is kept with the declaration and takes no part in
  validation.
\<close>

definition pattern_fails :: "FieldInfo \<Rightarrow> string \<Rightarrow> bool" where
  "pattern_fails i s = (case pattern i of Some r \<Rightarrow> \<not> re_match r s | None \<Rightarrow> False)"

definition check_str :: "FieldInfo \<Rightarrow> string \<Rightarrow> err_kind option" where
  "check_str i s =
     (if too_short i s then Some (MinLengthError (the (min_length i)))
      else if too_long i s then Some (MaxLengthError (the (max_length i)))
      else if pattern_fails i s then Some PatternError
      else None)"

definition below_ge :: "FieldInfo \<Rightarrow> int \<Rightarrow> bool" where
  "below_ge i n = (case ge i of Some b \<Rightarrow> n < b | None \<Rightarrow> False)"

definition above_le :: "FieldInfo \<Rightarrow> int \<Rightarrow> bool" where
  "above_le i n = (case le i of Some b \<Rightarrow> n > b | None \<Rightarrow> False)"

definition check_int :: "FieldInfo \<Rightarrow> int \<Rightarrow> err_kind option" where
  "check_int i n =
     (if below_ge i n then Some (NotGeError (the (ge i)))
      else if above_le i n then Some (NotLeError (the (le i)))
      else None)"

text \<open>The constraints of a declaration, applied to a value of the declared type.\<close>

fun check_constraints :: "FieldInfo \<Rightarrow> val \<Rightarrow> err_kind option" where
  "check_constraints i (VStr s) = check_str i s"
| "check_constraints i (VInt n) = check_int i n"
| "check_constraints i (VDecimal d) = check_decimal i d"
| "check_constraints i v = None"

text \<open>
  One attribute: absent from the input, it takes its default (a required one is
  missing); present, it is coerced to its type and checked. Defaults are not validated.
\<close>

definition validate_field :: "nat \<Rightarrow> FieldDef \<Rightarrow> (string \<rightharpoonup> val) \<Rightarrow> err_kind + val" where
  "validate_field now f inp =
     (case inp (fname f) of
        None \<Rightarrow>
          (case dflt (finfo f) of
             Required \<Rightarrow> Inl Missing
           | Default v \<Rightarrow> Inr v
           | DefaultFactoryUtcnow \<Rightarrow> Inr (VDatetime now))
      | Some v \<Rightarrow>
          (case coerce (ftyp f) v of
             None \<Rightarrow> Inl TypeError
           | Some v' \<Rightarrow>
               (case check_constraints (finfo f) v' of
                  Some e \<Rightarrow> Inl e
                | None \<Rightarrow> Inr v')))"

text \<open>
  Every attribute is validated and every error is reported, each with the name of its
  attribute. Without errors the result is the instance: the attributes with their
  values, in declaration order. Input keys that name no attribute are ignored.
\<close>

fun field_errors :: "nat \<Rightarrow> FieldDef list \<Rightarrow> (string \<rightharpoonup> val) \<Rightarrow> error list" where
  "field_errors now [] inp = []"
| "field_errors now (f # fs) inp =
     (case validate_field now f inp of
        Inl e \<Rightarrow> (fname f, e) # field_errors now fs inp
      | Inr v \<Rightarrow> field_errors now fs inp)"

fun field_values :: "nat \<Rightarrow> FieldDef list \<Rightarrow> (string \<rightharpoonup> val) \<Rightarrow> (string \<times> val) list" where
  "field_values now [] inp = []"
| "field_values now (f # fs) inp =
     (case validate_field now f inp of
        Inl e \<Rightarrow> field_values now fs inp
      | Inr v \<Rightarrow> (fname f, v) # field_values now fs inp)"

definition model_validate ::
  "nat \<Rightarrow> Model \<Rightarrow> (string \<rightharpoonup> val) \<Rightarrow> error list + (string \<times> val) list" where
  "model_validate now M inp =
     (let errs = field_errors now (model_fields M) inp
      in if errs = [] then Inr (field_values now (model_fields M) inp) else Inl errs)"

text \<open>Reading an attribute of an instance.\<close>

definition getattr :: "(string \<times> val) list \<Rightarrow> string \<Rightarrow> val option" where
  "getattr obj n = map_of obj n"

subsection \<open>The schema\<close>

text \<open>\<^verbatim>\<open>Decimal("0.0")\<close> and \<^verbatim>\<open>Decimal("0.00")\<close>, the defaults of ratings and fees.\<close>

definition Decimal_0_0 :: Decimal where
  "Decimal_0_0 = \<lparr>dsign = False, dcoeff = 0, dexp = - 1\<rparr>"

definition Decimal_0_00 :: Decimal where
  "Decimal_0_00 = \<lparr>dsign = False, dcoeff = 0, dexp = - 2\<rparr>"

text \<open>Persistent models (stored in the database), then the non-persistent schemas.\<close>

definition User :: Model where
  "User = \<lparr>tablename = Some ''users'', model_fields = [
     fld ''id'' (TOptional TInt)
       (Field\<lparr>dflt := Default (VNone), primary_key := True\<rparr>),
     fld ''email'' TStr
       (Field\<lparr>unique := True, max_length := Some 255, regex := Some email_regex\<rparr>),
     fld ''password_hash'' TStr (Field\<lparr>max_length := Some 255\<rparr>),
     fld ''full_name'' TStr (Field\<lparr>max_length := Some 100\<rparr>),
     fld ''phone'' (TOptional TStr)
       (Field\<lparr>dflt := Default (VNone), max_length := Some 20\<rparr>),
     fld ''role'' TUserRole (Field\<lparr>dflt := Default (VUserRole BUYER)\<rparr>),
     fld ''is_active'' TBool (Field\<lparr>dflt := Default (VBool True)\<rparr>),
     fld ''created_at'' TDatetime (Field\<lparr>dflt := DefaultFactoryUtcnow\<rparr>),
     fld ''updated_at'' TDatetime (Field\<lparr>dflt := DefaultFactoryUtcnow\<rparr>)]\<rparr>"

definition Address :: Model where
  "Address = \<lparr>tablename = Some ''addresses'', model_fields = [
     fld ''id'' (TOptional TInt)
       (Field\<lparr>dflt := Default (VNone), primary_key := True\<rparr>),
     fld ''user_id'' TInt (Field\<lparr>foreign_key := Some ''users.id''\<rparr>),
     fld ''label'' TStr (Field\<lparr>max_length := Some 50\<rparr>),
     fld ''full_address'' TStr (Field\<lparr>max_length := Some 500\<rparr>),
     fld ''city'' TStr (Field\<lparr>max_length := Some 100\<rparr>),
     fld ''state'' TStr (Field\<lparr>max_length := Some 100\<rparr>),
     fld ''postal_code'' TStr (Field\<lparr>max_length := Some 20\<rparr>),
     fld ''country'' TStr
       (Field\<lparr>dflt := Default (VStr ''Indonesia''), max_length := Some 100\<rparr>),
     fld ''is_default'' TBool (Field\<lparr>dflt := Default (VBool False)\<rparr>),
     fld ''created_at'' TDatetime (Field\<lparr>dflt := DefaultFactoryUtcnow\<rparr>)]\<rparr>"

definition SellerProfile :: Model where
  "SellerProfile = \<lparr>tablename = Some ''seller_profiles'', model_fields = [
     fld ''id'' (TOptional TInt)
       (Field\<lparr>dflt := Default (VNone), primary_key := True\<rparr>),
     fld ''user_id'' TInt (Field\<lparr>foreign_key := Some ''users.id'', unique := True\<rparr>),
     fld ''store_name'' TStr (Field\<lparr>max_length := Some 200\<rparr>),
     fld ''store_description'' (TOptional TStr)
       (Field\<lparr>dflt := Default (VNone), max_length := Some 1000\<rparr>),
     fld ''store_logo_url'' (TOptional TStr)
       (Field\<lparr>dflt := Default (VNone), max_length := Some 500\<rparr>),
     fld ''business_license'' (TOptional TStr)
       (Field\<lparr>dflt := Default (VNone), max_length := Some 100\<rparr>),
     fld ''is_verified'' TBool (Field\<lparr>dflt := Default (VBool False)\<rparr>),
     fld ''rating'' TDecimal
       (Field\<lparr>dflt := Default (VDecimal Decimal_0_0), max_digits := Some 3, decimal_places := Some 2\<rparr>),
     fld ''total_sales'' TInt (Field\<lparr>dflt := Default (VInt 0)\<rparr>),
     fld ''created_at'' TDatetime (Field\<lparr>dflt := DefaultFactoryUtcnow\<rparr>)]\<rparr>"

definition Category :: Model where
  "Category = \<lparr>tablename = Some ''categories'', model_fields = [
     fld ''id'' (TOptional TInt)
       (Field\<lparr>dflt := Default (VNone), primary_key := True\<rparr>),
     fld ''name'' TStr (Field\<lparr>unique := True, max_length := Some 100\<rparr>),
     fld ''description'' (TOptional TStr)
       (Field\<lparr>dflt := Default (VNone), max_length := Some 500\<rparr>),
     fld ''parent_id'' (TOptional TInt)
       (Field\<lparr>dflt := Default (VNone), foreign_key := Some ''categories.id''\<rparr>),
     fld ''image_url'' (TOptional TStr)
       (Field\<lparr>dflt := Default (VNone), max_length := Some 500\<rparr>),
     fld ''is_active'' TBool (Field\<lparr>dflt := Default (VBool True)\<rparr>),
     fld ''sort_order'' TInt (Field\<lparr>dflt := Default (VInt 0)\<rparr>),
     fld ''created_at'' TDatetime (Field\<lparr>dflt := DefaultFactoryUtcnow\<rparr>)]\<rparr>"

definition Product :: Model where
  "Product = \<lparr>tablename = Some ''products'', model_fields = [
     fld ''id'' (TOptional TInt)
       (Field\<lparr>dflt := Default (VNone), primary_key := True\<rparr>),
     fld ''seller_id'' TInt (Field\<lparr>foreign_key := Some ''users.id''\<rparr>),
     fld ''category_id'' TInt (Field\<lparr>foreign_key := Some ''categories.id''\<rparr>),
     fld ''name'' TStr (Field\<lparr>max_length := Some 200\<rparr>),
     fld ''description'' TStr (Field\<lparr>max_length := Some 2000\<rparr>),
     fld ''price'' TDecimal (Field\<lparr>max_digits := Some 12, decimal_places := Some 2\<rparr>),
     fld ''original_price'' (TOptional TDecimal)
       (Field\<lparr>dflt := Default (VNone), max_digits := Some 12, decimal_places := Some 2\<rparr>),
     fld ''stock_quantity'' TInt (Field\<lparr>dflt := Default (VInt 0)\<rparr>),
     fld ''min_order_quantity'' TInt (Field\<lparr>dflt := Default (VInt 1)\<rparr>),
     fld ''weight_kg'' TDecimal
       (Field\<lparr>max_digits := Some 8, decimal_places := Some 3\<rparr>),
     fld ''dimensions'' TDictStrAny
       (Field\<lparr>dflt := Default (VDict []), sa_column_json := True\<rparr>),
     fld ''images'' TListStr
       (Field\<lparr>dflt := Default (VList []), sa_column_json := True\<rparr>),
     fld ''specifications'' TDictStrAny
       (Field\<lparr>dflt := Default (VDict []), sa_column_json := True\<rparr>),
     fld ''tags'' TListStr
       (Field\<lparr>dflt := Default (VList []), sa_column_json := True\<rparr>),
     fld ''is_active'' TBool (Field\<lparr>dflt := Default (VBool True)\<rparr>),
     fld ''is_featured'' TBool (Field\<lparr>dflt := Default (VBool False)\<rparr>),
     fld ''rating'' TDecimal
       (Field\<lparr>dflt := Default (VDecimal Decimal_0_0), max_digits := Some 3, decimal_places := Some 2\<rparr>),
     fld ''total_reviews'' TInt (Field\<lparr>dflt := Default (VInt 0)\<rparr>),
     fld ''total_sold'' TInt (Field\<lparr>dflt := Default (VInt 0)\<rparr>),
     fld ''created_at'' TDatetime (Field\<lparr>dflt := DefaultFactoryUtcnow\<rparr>),
     fld ''updated_at'' TDatetime (Field\<lparr>dflt := DefaultFactoryUtcnow\<rparr>)]\<rparr>"

definition CartItem :: Model where
  "CartItem = \<lparr>tablename = Some ''cart_items'', model_fields = [
     fld ''id'' (TOptional TInt)
       (Field\<lparr>dflt := Default (VNone), primary_key := True\<rparr>),
     fld ''user_id'' TInt (Field\<lparr>foreign_key := Some ''users.id''\<rparr>),
     fld ''product_id'' TInt (Field\<lparr>foreign_key := Some ''products.id''\<rparr>),
     fld ''quantity'' TInt (Field\<lparr>dflt := Default (VInt 1)\<rparr>),
     fld ''added_at'' TDatetime (Field\<lparr>dflt := DefaultFactoryUtcnow\<rparr>)]\<rparr>"

definition Order :: Model where
  "Order = \<lparr>tablename = Some ''orders'', model_fields = [
     fld ''id'' (TOptional TInt)
       (Field\<lparr>dflt := Default (VNone), primary_key := True\<rparr>),
     fld ''user_id'' TInt (Field\<lparr>foreign_key := Some ''users.id''\<rparr>),
     fld ''shipping_address_id'' TInt (Field\<lparr>foreign_key := Some ''addresses.id''\<rparr>),
     fld ''order_number'' TStr (Field\<lparr>unique := True, max_length := Some 50\<rparr>),
     fld ''status'' TOrderStatus (Field\<lparr>dflt := Default (VOrderStatus OS_PENDING)\<rparr>),
     fld ''subtotal'' TDecimal
       (Field\<lparr>max_digits := Some 12, decimal_places := Some 2\<rparr>),
     fld ''shipping_fee'' TDecimal
       (Field\<lparr>dflt := Default (VDecimal Decimal_0_00), max_digits := Some 12, decimal_places := Some 2\<rparr>),
     fld ''tax_amount'' TDecimal
       (Field\<lparr>dflt := Default (VDecimal Decimal_0_00), max_digits := Some 12, decimal_places := Some 2\<rparr>),
     fld ''discount_amount'' TDecimal
       (Field\<lparr>dflt := Default (VDecimal Decimal_0_00), max_digits := Some 12, decimal_places := Some 2\<rparr>),
     fld ''total_amount'' TDecimal
       (Field\<lparr>max_digits := Some 12, decimal_places := Some 2\<rparr>),
     fld ''payment_method'' TStr (Field\<lparr>max_length := Some 50\<rparr>),
     fld ''payment_status'' TStr
       (Field\<lparr>dflt := Default (VStr ''pending''), max_length := Some 20\<rparr>),
     fld ''notes'' (TOptional TStr)
       (Field\<lparr>dflt := Default (VNone), max_length := Some 500\<rparr>),
     fld ''created_at'' TDatetime (Field\<lparr>dflt := DefaultFactoryUtcnow\<rparr>),
     fld ''updated_at'' TDatetime (Field\<lparr>dflt := DefaultFactoryUtcnow\<rparr>)]\<rparr>"

definition OrderItem :: Model where
  "OrderItem = \<lparr>tablename = Some ''order_items'', model_fields = [
     fld ''id'' (TOptional TInt)
       (Field\<lparr>dflt := Default (VNone), primary_key := True\<rparr>),
     fld ''order_id'' TInt (Field\<lparr>foreign_key := Some ''orders.id''\<rparr>),
     fld ''product_id'' TInt (Field\<lparr>foreign_key := Some ''products.id''\<rparr>),
     fld ''quantity'' TInt Field,
     fld ''unit_price'' TDecimal
       (Field\<lparr>max_digits := Some 12, decimal_places := Some 2\<rparr>),
     fld ''total_price'' TDecimal
       (Field\<lparr>max_digits := Some 12, decimal_places := Some 2\<rparr>),
     fld ''seller_id'' TInt (Field\<lparr>foreign_key := Some ''users.id''\<rparr>)]\<rparr>"

definition Delivery :: Model where
  "Delivery = \<lparr>tablename = Some ''deliveries'', model_fields = [
     fld ''id'' (TOptional TInt)
       (Field\<lparr>dflt := Default (VNone), primary_key := True\<rparr>),
     fld ''order_id'' TInt
       (Field\<lparr>foreign_key := Some ''orders.id'', unique := True\<rparr>),
     fld ''komerce_delivery_id'' (TOptional TStr)
       (Field\<lparr>dflt := Default (VNone), max_length := Some 100\<rparr>),
     fld ''courier_name'' TStr (Field\<lparr>max_length := Some 100\<rparr>),
     fld ''courier_phone'' (TOptional TStr)
       (Field\<lparr>dflt := Default (VNone), max_length := Some 20\<rparr>),
     fld ''tracking_number'' (TOptional TStr)
       (Field\<lparr>dflt := Default (VNone), max_length := Some 100\<rparr>),
     fld ''status'' TDeliveryStatus
       (Field\<lparr>dflt := Default (VDeliveryStatus DS_PENDING)\<rparr>),
     fld ''estimated_delivery'' (TOptional TDatetime)
       (Field\<lparr>dflt := Default (VNone)\<rparr>),
     fld ''actual_delivery'' (TOptional TDatetime) (Field\<lparr>dflt := Default (VNone)\<rparr>),
     fld ''pickup_address'' TStr (Field\<lparr>max_length := Some 500\<rparr>),
     fld ''delivery_address'' TStr (Field\<lparr>max_length := Some 500\<rparr>),
     fld ''delivery_fee'' TDecimal
       (Field\<lparr>max_digits := Some 10, decimal_places := Some 2\<rparr>),
     fld ''insurance_fee'' TDecimal
       (Field\<lparr>dflt := Default (VDecimal Decimal_0_00), max_digits := Some 10, decimal_places := Some 2\<rparr>),
     fld ''delivery_notes'' (TOptional TStr)
       (Field\<lparr>dflt := Default (VNone), max_length := Some 500\<rparr>),
     fld ''komerce_response'' TDictStrAny
       (Field\<lparr>dflt := Default (VDict []), sa_column_json := True\<rparr>),
     fld ''created_at'' TDatetime (Field\<lparr>dflt := DefaultFactoryUtcnow\<rparr>),
     fld ''updated_at'' TDatetime (Field\<lparr>dflt := DefaultFactoryUtcnow\<rparr>)]\<rparr>"

definition ProductReview :: Model where
  "ProductReview = \<lparr>tablename = Some ''product_reviews'', model_fields = [
     fld ''id'' (TOptional TInt)
       (Field\<lparr>dflt := Default (VNone), primary_key := True\<rparr>),
     fld ''product_id'' TInt (Field\<lparr>foreign_key := Some ''products.id''\<rparr>),
     fld ''user_id'' TInt (Field\<lparr>foreign_key := Some ''users.id''\<rparr>),
     fld ''order_item_id'' (TOptional TInt)
       (Field\<lparr>dflt := Default (VNone), foreign_key := Some ''order_items.id''\<rparr>),
     fld ''rating'' TInt (Field\<lparr>ge := Some 1, le := Some 5\<rparr>),
     fld ''title'' (TOptional TStr)
       (Field\<lparr>dflt := Default (VNone), max_length := Some 200\<rparr>),
     fld ''comment'' (TOptional TStr)
       (Field\<lparr>dflt := Default (VNone), max_length := Some 1000\<rparr>),
     fld ''images'' TListStr
       (Field\<lparr>dflt := Default (VList []), sa_column_json := True\<rparr>),
     fld ''is_verified_purchase'' TBool (Field\<lparr>dflt := Default (VBool False)\<rparr>),
     fld ''helpful_count'' TInt (Field\<lparr>dflt := Default (VInt 0)\<rparr>),
     fld ''created_at'' TDatetime (Field\<lparr>dflt := DefaultFactoryUtcnow\<rparr>)]\<rparr>"

definition UserCreate :: Model where
  "UserCreate = \<lparr>tablename = None, model_fields = [
     fld ''email'' TStr (Field\<lparr>max_length := Some 255, regex := Some email_regex\<rparr>),
     fld ''password'' TStr (Field\<lparr>max_length := Some 100, min_length := Some 8\<rparr>),
     fld ''full_name'' TStr (Field\<lparr>max_length := Some 100\<rparr>),
     fld ''phone'' (TOptional TStr)
       (Field\<lparr>dflt := Default (VNone), max_length := Some 20\<rparr>),
     fld ''role'' TUserRole (Field\<lparr>dflt := Default (VUserRole BUYER)\<rparr>)]\<rparr>"


definition AddressCreate :: Model where
  "AddressCreate = \<lparr>tablename = None, model_fields = [
     fld ''label'' TStr (Field\<lparr>max_length := Some 50\<rparr>),
     fld ''full_address'' TStr (Field\<lparr>max_length := Some 500\<rparr>),
     fld ''city'' TStr (Field\<lparr>max_length := Some 100\<rparr>),
     fld ''state'' TStr (Field\<lparr>max_length := Some 100\<rparr>),
     fld ''postal_code'' TStr (Field\<lparr>max_length := Some 20\<rparr>),
     fld ''country'' TStr
       (Field\<lparr>dflt := Default (VStr ''Indonesia''), max_length := Some 100\<rparr>),
     fld ''is_default'' TBool (Field\<lparr>dflt := Default (VBool False)\<rparr>)]\<rparr>"

definition SellerProfileCreate :: Model where
  "SellerProfileCreate = \<lparr>tablename = None, model_fields = [
     fld ''store_name'' TStr (Field\<lparr>max_length := Some 200\<rparr>),
     fld ''store_description'' (TOptional TStr)
       (Field\<lparr>dflt := Default (VNone), max_length := Some 1000\<rparr>),
     fld ''store_logo_url'' (TOptional TStr)
       (Field\<lparr>dflt := Default (VNone), max_length := Some 500\<rparr>),
     fld ''business_license'' (TOptional TStr)
       (Field\<lparr>dflt := Default (VNone), max_length := Some 100\<rparr>)]\<rparr>"

definition ProductCreate :: Model where
  "ProductCreate = \<lparr>tablename = None, model_fields = [
     fld ''category_id'' TInt Field,
     fld ''name'' TStr (Field\<lparr>max_length := Some 200\<rparr>),
     fld ''description'' TStr (Field\<lparr>max_length := Some 2000\<rparr>),
     fld ''price'' TDecimal (Field\<lparr>max_digits := Some 12, decimal_places := Some 2\<rparr>),
     fld ''original_price'' (TOptional TDecimal)
       (Field\<lparr>dflt := Default (VNone), max_digits := Some 12, decimal_places := Some 2\<rparr>),
     fld ''stock_quantity'' TInt (Field\<lparr>dflt := Default (VInt 0)\<rparr>),
     fld ''min_order_quantity'' TInt (Field\<lparr>dflt := Default (VInt 1)\<rparr>),
     fld ''weight_kg'' TDecimal
       (Field\<lparr>max_digits := Some 8, decimal_places := Some 3\<rparr>),
     fld ''dimensions'' TDictStrAny (Field\<lparr>dflt := Default (VDict [])\<rparr>),
     fld ''images'' TListStr (Field\<lparr>dflt := Default (VList [])\<rparr>),
     fld ''specifications'' TDictStrAny (Field\<lparr>dflt := Default (VDict [])\<rparr>),
     fld ''tags'' TListStr (Field\<lparr>dflt := Default (VList [])\<rparr>)]\<rparr>"


definition CartItemCreate :: Model where
  "CartItemCreate = \<lparr>tablename = None, model_fields = [
     fld ''product_id'' TInt Field,
     fld ''quantity'' TInt (Field\<lparr>dflt := Default (VInt 1), ge := Some 1\<rparr>)]\<rparr>"

definition CartItemUpdate :: Model where
  "CartItemUpdate = \<lparr>tablename = None, model_fields = [
     fld ''quantity'' TInt (Field\<lparr>ge := Some 1\<rparr>)]\<rparr>"

definition OrderCreate :: Model where
  "OrderCreate = \<lparr>tablename = None, model_fields = [
     fld ''shipping_address_id'' TInt Field,
     fld ''payment_method'' TStr (Field\<lparr>max_length := Some 50\<rparr>),
     fld ''notes'' (TOptional TStr)
       (Field\<lparr>dflt := Default (VNone), max_length := Some 500\<rparr>)]\<rparr>"

definition DeliveryCreate :: Model where
  "DeliveryCreate = \<lparr>tablename = None, model_fields = [
     fld ''courier_name'' TStr (Field\<lparr>max_length := Some 100\<rparr>),
     fld ''pickup_address'' TStr (Field\<lparr>max_length := Some 500\<rparr>),
     fld ''delivery_address'' TStr (Field\<lparr>max_length := Some 500\<rparr>),
     fld ''delivery_fee'' TDecimal
       (Field\<lparr>max_digits := Some 10, decimal_places := Some 2\<rparr>),
     fld ''insurance_fee'' TDecimal
       (Field\<lparr>dflt := Default (VDecimal Decimal_0_00), max_digits := Some 10, decimal_places := Some 2\<rparr>),
     fld ''delivery_notes'' (TOptional TStr)
       (Field\<lparr>dflt := Default (VNone), max_length := Some 500\<rparr>)]\<rparr>"

definition ProductReviewCreate :: Model where
  "ProductReviewCreate = \<lparr>tablename = None, model_fields = [
     fld ''rating'' TInt (Field\<lparr>ge := Some 1, le := Some 5\<rparr>),
     fld ''title'' (TOptional TStr)
       (Field\<lparr>dflt := Default (VNone), max_length := Some 200\<rparr>),
     fld ''comment'' (TOptional TStr)
       (Field\<lparr>dflt := Default (VNone), max_length := Some 1000\<rparr>),
     fld ''images'' TListStr (Field\<lparr>dflt := Default (VList [])\<rparr>)]\<rparr>"

text \<open>The persistent entities of the schema, in source order.\<close>

definition persistent_models :: "(string \<times> Model) list" where
  "persistent_models =
     [(''User'', User), (''Address'', Address), (''SellerProfile'', SellerProfile),
      (''Category'', Category), (''Product'', Product), (''CartItem'', CartItem),
      (''Order'', Order), (''OrderItem'', OrderItem), (''Delivery'', Delivery),
      (''ProductReview'', ProductReview)]"

subsection \<open>Looking at the declarations\<close>

definition field_names :: "Model \<Rightarrow> string list" where
  "field_names M = map fname (model_fields M)"

definition lookup_field :: "Model \<Rightarrow> string \<Rightarrow> FieldDef option" where
  "lookup_field M n = find (\<lambda>f. fname f = n) (model_fields M)"

text \<open>
  The numeric identity of an entity is its \<^verbatim>\<open>id: Optional[int]\<close>, declared the primary
  key; its created-at timestamp is the attribute \<^verbatim>\<open>created_at: datetime\<close>. Any
  attribute of type \<^verbatim>\<open>datetime\<close> filled from the clock is a timestamp.
\<close>

definition has_identity :: "Model \<Rightarrow> bool" where
  "has_identity M =
     (case lookup_field M ''id'' of
        Some f \<Rightarrow> ftyp f = TOptional TInt \<and> primary_key (finfo f)
      | None \<Rightarrow> False)"

definition has_created_at :: "Model \<Rightarrow> bool" where
  "has_created_at M =
     (case lookup_field M ''created_at'' of Some f \<Rightarrow> ftyp f = TDatetime | None \<Rightarrow> False)"

definition clock_fields :: "Model \<Rightarrow> string list" where
  "clock_fields M =
     map fname (filter (\<lambda>f. ftyp f = TDatetime \<and> dflt (finfo f) = DefaultFactoryUtcnow)
                  (model_fields M))"

subsection \<open>The persistence collaborator\<close>

text \<open>
  Modelled from the spec: the relational store behind the schema is not part of the
  source file. Section 6 of the specification describes it as the collaborator that maps
  each persistent entity to a table and enforces the unique constraints as declared; a
  column whose type is not \<^verbatim>\<open>Optional\<close> is not nullable. A table is the list of its rows,
  a row the attributes of an instance. A write that would break a declared constraint is
  refused with an integrity error and leaves the table as it was.
\<close>

type_synonym row = "(string \<times> val) list"

type_synonym table = "row list"

datatype db_error = IntegrityError string

definition is_null :: "val option \<Rightarrow> bool" where
  "is_null v = (v = None \<or> v = Some VNone)"

definition unique_columns :: "Model \<Rightarrow> string list" where
  "unique_columns M = map fname (filter (\<lambda>f. unique (finfo f)) (model_fields M))"

fun is_optional :: "ftype \<Rightarrow> bool" where
  "is_optional (TOptional t) = True"
| "is_optional t = False"

definition not_null_columns :: "Model \<Rightarrow> string list" where
  "not_null_columns M = map fname (filter (\<lambda>f. \<not> is_optional (ftyp f)) (model_fields M))"

definition collides :: "table \<Rightarrow> string \<Rightarrow> row \<Rightarrow> bool" where
  "collides tbl c r =
     (\<not> is_null (getattr r c) \<and> list_ex (\<lambda>r'. getattr r' c = getattr r c) tbl)"

text \<open>
  Modelled from the spec: the store's check of a row before it is written. A column that
  is not nullable must have a value, and a value in a unique column must not be in that
  column already; SQL's \<^verbatim>\<open>NULL\<close> collides with nothing.
\<close>

definition check_row :: "Model \<Rightarrow> table \<Rightarrow> row \<Rightarrow> db_error option" where
  "check_row M tbl r =
     (case find (\<lambda>c. is_null (getattr r c)) (not_null_columns M) of
        Some c \<Rightarrow> Some (IntegrityError c)
      | None \<Rightarrow>
          (case find (\<lambda>c. collides tbl c r) (unique_columns M) of
             Some c \<Rightarrow> Some (IntegrityError c)
           | None \<Rightarrow> None))"

text \<open>Modelled from the spec: the store's delete of row \<open>i\<close>.\<close>

definition db_delete :: "table \<Rightarrow> nat \<Rightarrow> table" where
  "db_delete tbl i = take i tbl @ drop (Suc i) tbl"

text \<open>Modelled from the spec: the store's insert, refused when the row fails the check.\<close>

definition db_insert :: "Model \<Rightarrow> table \<Rightarrow> row \<Rightarrow> db_error + table" where
  "db_insert M tbl r =
     (case check_row M tbl r of Some e \<Rightarrow> Inl e | None \<Rightarrow> Inr (tbl @ [r]))"

text \<open>
  Modelled from the spec: the store's update, replacing row \<open>i\<close>; the new row is checked
  against all the other rows. An update of a row that does not exist changes nothing.
\<close>

definition db_update :: "Model \<Rightarrow> table \<Rightarrow> nat \<Rightarrow> row \<Rightarrow> db_error + table" where
  "db_update M tbl i r =
     (if i < length tbl
      then (case check_row M (db_delete tbl i) r of
              Some e \<Rightarrow> Inl e
            | None \<Rightarrow> Inr (take i tbl @ r # drop (Suc i) tbl))
      else Inr tbl)"

text \<open>
  Modelled from the spec: the states of a table that the store's writes can reach from
  the empty table.
\<close>

inductive reachable :: "Model \<Rightarrow> table \<Rightarrow> bool" for M :: Model where
  empty: "reachable M []"
| insert: "reachable M tbl \<Longrightarrow> db_insert M tbl r = Inr tbl' \<Longrightarrow> reachable M tbl'"
| update: "reachable M tbl \<Longrightarrow> db_update M tbl i r = Inr tbl' \<Longrightarrow> reachable M tbl'"
| delete: "reachable M tbl \<Longrightarrow> reachable M (db_delete tbl i)"

subsection \<open>From a request shape to an entity\<close>

text \<open>
  Modelled from the spec: the source file holds no code that turns a request shape into
  an entity. The specification speaks of applying a Create shape to build a persistent
  entity: the entity is made from the attributes of the shape together with the
  attributes the shape does not have (\<open>extra\<close>, for instance the seller of a product),
  and it is validated as an entity. An attribute of the shape wins over an extra one of
  the same name.
\<close>

definition build_entity ::
  "nat \<Rightarrow> Model \<Rightarrow> row \<Rightarrow> (string \<rightharpoonup> val) \<Rightarrow> error list + row" where
  "build_entity now E shape extra = model_validate now E (extra ++ map_of shape)"

text \<open>
  An attribute of a shape is covered by an entity when the entity has an attribute of
  that name with the same type, the entity declares no constraint on it that the shape
  does not declare, and the default of the shape is itself a value of the attribute's
  type that meets its constraints. The shape is covered when every attribute that it
  shares with the entity is.
\<close>

definition weaker_opt :: "'a option \<Rightarrow> 'a option \<Rightarrow> bool" where
  "weaker_opt e c = (e = None \<or> e = c)"

definition constraints_covered :: "FieldInfo \<Rightarrow> FieldInfo \<Rightarrow> bool" where
  "constraints_covered c e =
     (weaker_opt (max_length e) (max_length c) \<and> weaker_opt (min_length e) (min_length c) \<and>
      weaker_opt (pattern e) (pattern c) \<and> weaker_opt (ge e) (ge c) \<and> weaker_opt (le e) (le c) \<and>
      max_digits e = max_digits c \<and> decimal_places e = decimal_places c)"

definition default_ok :: "FieldDef \<Rightarrow> bool" where
  "default_ok c =
     (case dflt (finfo c) of
        Required \<Rightarrow> True
      | Default v \<Rightarrow> coerce (ftyp c) v = Some v \<and> check_constraints (finfo c) v = None
      | DefaultFactoryUtcnow \<Rightarrow> False)"

definition field_covered :: "Model \<Rightarrow> FieldDef \<Rightarrow> bool" where
  "field_covered E c =
     (case lookup_field E (fname c) of
        Some e \<Rightarrow> ftyp e = ftyp c \<and> constraints_covered (finfo c) (finfo e) \<and> default_ok c
      | None \<Rightarrow> False)"

text \<open>
  The attributes of the shape that are attributes of the entity too, and the names of
  those that are not.
\<close>

definition shared_fields :: "Model \<Rightarrow> Model \<Rightarrow> FieldDef list" where
  "shared_fields C E = filter (\<lambda>c. fname c \<in> set (field_names E)) (model_fields C)"

definition unshared :: "Model \<Rightarrow> Model \<Rightarrow> string list" where
  "unshared C E = filter (\<lambda>a. a \<notin> set (field_names E)) (field_names C)"

definition covers :: "Model \<Rightarrow> Model \<Rightarrow> bool" where
  "covers E C = list_all (field_covered E) (shared_fields C E)"

text \<open>The attributes of the entity that the shape does not have.\<close>

definition own_fields :: "Model \<Rightarrow> Model \<Rightarrow> FieldDef list" where
  "own_fields E C = filter (\<lambda>e. fname e \<notin> set (field_names C)) (model_fields E)"

text \<open>The other attributes of an input validate.\<close>

definition others_valid :: "nat \<Rightarrow> Model \<Rightarrow> string \<Rightarrow> (string \<rightharpoonup> val) \<Rightarrow> bool" where
  "others_valid now M n inp =
     (field_errors now (filter (\<lambda>f. fname f \<noteq> n) (model_fields M)) inp = [])"

subsection \<open>What the pattern of an e-mail address says\<close>

text \<open>
  The strings an expression denotes. This is the reading of a pattern, against which the
  matcher is checked; it is not run.
\<close>

inductive_set reps :: "string set \<Rightarrow> string set" for A :: "string set" where
  reps_nil: "[] \<in> reps A"
| reps_more: "u \<in> A \<Longrightarrow> v \<in> reps A \<Longrightarrow> u @ v \<in> reps A"

fun denotes :: "rexp \<Rightarrow> string set" where
  "denotes Zero = {}"
| "denotes One = {[]}"
| "denotes (Atom cs) = {[c] | c. c \<in> set cs}"
| "denotes (Alt r s) = denotes r \<union> denotes s"
| "denotes (Times r s) = {u @ v | u v. u \<in> denotes r \<and> v \<in> denotes s}"
| "denotes (Star r) = reps (denotes r)"

text \<open>
  In the words of the specification an address has the shape \<^verbatim>\<open>local@domain.tld\<close>: a
  local part, an at sign, a domain, a dot and a top-level part, each part non-empty and
  made of the characters the pattern allows for it.
\<close>

definition is_email_shape :: "string \<Rightarrow> bool" where
  "is_email_shape s =
     (\<exists>l d t. s = l @ ''@'' @ d @ ''.'' @ t \<and>
        l \<noteq> [] \<and> set l \<subseteq> set local_chars \<and>
        d \<noteq> [] \<and> set d \<subseteq> set domain_chars \<and>
        t \<noteq> [] \<and> set t \<subseteq> set tld_chars)"

text \<open>
  A column holds a key of the table when no row lacks it and no two rows agree on it.
\<close>

definition key_column :: "string \<Rightarrow> table \<Rightarrow> bool" where
  "key_column c tbl =
     (distinct (map (\<lambda>r. getattr r c) tbl) \<and> (\<forall>r \<in> set tbl. \<not> is_null (getattr r c)))"

text \<open>An example: the delivery of order \<open>k\<close> by a courier, as validation returns it.\<close>

definition example_delivery :: "int \<Rightarrow> row" where
  "example_delivery k =
     [(''id'', VNone), (''order_id'', VInt k), (''komerce_delivery_id'', VNone),
      (''courier_name'', VStr ''JNE''), (''courier_phone'', VNone), (''tracking_number'', VNone),
      (''status'', VDeliveryStatus DS_PENDING), (''estimated_delivery'', VNone),
      (''actual_delivery'', VNone), (''pickup_address'', VStr ''Jl. A''),
      (''delivery_address'', VStr ''Jl. B''),
      (''delivery_fee'', VDecimal \<lparr>dsign = False, dcoeff = 9500, dexp = 0\<rparr>),
      (''insurance_fee'', VDecimal Decimal_0_00), (''delivery_notes'', VNone),
      (''komerce_response'', VDict []), (''created_at'', VDatetime 0),
      (''updated_at'', VDatetime 0)]"

text \<open>The Create shapes of the schema, each with the entity it is a shape of.\<close>

definition create_shapes :: "(string \<times> Model \<times> Model) list" where
  "create_shapes =
     [(''UserCreate'', UserCreate, User), (''AddressCreate'', AddressCreate, Address),
      (''SellerProfileCreate'', SellerProfileCreate, SellerProfile),
      (''ProductCreate'', ProductCreate, Product), (''CartItemCreate'', CartItemCreate, CartItem),
      (''OrderCreate'', OrderCreate, Order), (''DeliveryCreate'', DeliveryCreate, Delivery),
      (''ProductReviewCreate'', ProductReviewCreate, ProductReview)]"

subsection \<open>The decimal fields\<close>






section \<open>Validation: general facts\<close>

text \<open>
  Validation succeeds exactly when every attribute validates; the instance then holds,
  under each attribute's name, the value its validation returned.
\<close>

lemma field_errors_Nil_iff:
  "field_errors now fs inp = [] \<longleftrightarrow> (\<forall>f \<in> set fs. \<exists>v. validate_field now f inp = Inr v)"
  by (induction fs) (auto split: sum.splits)

lemma field_errors_mem:
  "f \<in> set fs \<Longrightarrow> validate_field now f inp = Inl e \<Longrightarrow> (fname f, e) \<in> set (field_errors now fs inp)"
  by (induction fs) (auto split: sum.splits)

lemma field_values_lookup:
  "field_errors now fs inp = [] \<Longrightarrow> distinct (map fname fs) \<Longrightarrow> f \<in> set fs \<Longrightarrow>
   validate_field now f inp = Inr v \<Longrightarrow> map_of (field_values now fs inp) (fname f) = Some v"
proof (induction fs)
  case Nil
  then show ?case by simp
next
  case (Cons g gs)
  show ?case
  proof (cases "f = g")
    case True
    with Cons.prems show ?thesis by simp
  next
    case False
    with Cons.prems have fin: "f \<in> set gs" and ne: "fname g \<noteq> fname f" by auto
    from Cons.prems(1) obtain w where w: "validate_field now g inp = Inr w"
      by (auto split: sum.splits)
    with Cons.prems(1) have "field_errors now gs inp = []" by simp
    with Cons.IH fin Cons.prems have "map_of (field_values now gs inp) (fname f) = Some v" by simp
    with w ne show ?thesis by simp
  qed
qed

lemma field_values_None:
  "n \<notin> fname ` set fs \<Longrightarrow> map_of (field_values now fs inp) n = None"
  by (induction fs) (auto split: sum.splits)

lemma model_validate_Inr:
  "model_validate now M inp = Inr obj \<longleftrightarrow>
     field_errors now (model_fields M) inp = [] \<and> obj = field_values now (model_fields M) inp"
  by (auto simp: model_validate_def Let_def)

lemma model_validate_Inl:
  "model_validate now M inp = Inl errs \<longleftrightarrow>
     errs \<noteq> [] \<and> errs = field_errors now (model_fields M) inp"
  by (auto simp: model_validate_def Let_def)

lemma getattr_validated:
  assumes "model_validate now M inp = Inr obj" "distinct (map fname (model_fields M))"
    "f \<in> set (model_fields M)"
  shows "\<exists>v. validate_field now f inp = Inr v \<and> getattr obj (fname f) = Some v"
proof -
  from assms(1) have e: "field_errors now (model_fields M) inp = []"
    and o: "obj = field_values now (model_fields M) inp" by (simp_all add: model_validate_Inr)
  from e assms(3) obtain v where v: "validate_field now f inp = Inr v"
    by (auto simp: field_errors_Nil_iff)
  with field_values_lookup[OF e assms(2,3) v] o show ?thesis by (simp add: getattr_def)
qed

lemma field_fails_model_fails:
  assumes "f \<in> set (model_fields M)" "validate_field now f inp = Inl e"
  shows "\<exists>errs. model_validate now M inp = Inl errs \<and> (fname f, e) \<in> set errs"
proof -
  from field_errors_mem[OF assms] have m: "(fname f, e) \<in> set (field_errors now (model_fields M) inp)" .
  then have "field_errors now (model_fields M) inp \<noteq> []" by auto
  with m show ?thesis by (simp add: model_validate_def Let_def)
qed

lemma default_taken:
  "inp (fname f) = None \<Longrightarrow> dflt (finfo f) = Default v \<Longrightarrow> validate_field now f inp = Inr v"
  by (simp add: validate_field_def)


text \<open>The definitions that evaluate a validation on a concrete input.\<close>

lemmas ev = model_validate_def validate_field_def fld_def Field_def check_str_def check_int_def
  check_decimal_def too_short_def too_long_def pattern_fails_def below_ge_def above_le_def
  decimal_digit_info_def normalize_dec_def Decimal_of_str_def is_digit_def digit_val_def
  strip_def is_space_def is_space_int_def split_sign_def signed_digits_def nat_of_digits_def
  ndigits.simps trailing_zeros.simps context_prec_def round_half_even_def int_of_str_def
  bool_of_str_def to_lower_def int_of_decimal_def Decimal_of_int_def
  getattr_def enum_of_value_def UserRole_members_def Decimal_0_0_def Decimal_0_00_def

section \<open>Defaults\<close>

text \<open>
  C9. An \<^verbatim>\<open>Address\<close> or \<^verbatim>\<open>AddressCreate\<close> validated from an input that gives no country has
  the country \<^verbatim>\<open>"Indonesia"\<close>, and one validated from an input that gives no
  \<^verbatim>\<open>is_default\<close> has \<^verbatim>\<open>is_default = False\<close>.
\<close>

theorem address_defaults:
  assumes "M = Address \<or> M = AddressCreate" "model_validate now M inp = Inr obj"
  shows "(inp ''country'' = None \<longrightarrow> getattr obj ''country'' = Some (VStr ''Indonesia'')) \<and>
         (inp ''is_default'' = None \<longrightarrow> getattr obj ''is_default'' = Some (VBool False))"
proof -
  let ?c = "fld ''country'' TStr (Field\<lparr>dflt := Default (VStr ''Indonesia''), max_length := Some 100\<rparr>)"
  let ?d = "fld ''is_default'' TBool (Field\<lparr>dflt := Default (VBool False)\<rparr>)"
  from assms(1) have dist: "distinct (map fname (model_fields M))"
    by (auto simp: Address_def AddressCreate_def fld_def)
  from assms(1) have mem: "?c \<in> set (model_fields M)" "?d \<in> set (model_fields M)"
    by (auto simp: Address_def AddressCreate_def)
  from getattr_validated[OF assms(2) dist mem(1)]
  have c: "inp ''country'' = None \<longrightarrow> getattr obj ''country'' = Some (VStr ''Indonesia'')"
    by (auto simp: validate_field_def fld_def Field_def)
  from getattr_validated[OF assms(2) dist mem(2)]
  have d: "inp ''is_default'' = None \<longrightarrow> getattr obj ''is_default'' = Some (VBool False)"
    by (auto simp: validate_field_def fld_def Field_def)
  from c d show ?thesis by simp
qed

theorem address_defaults_witness:
  "model_validate 0 AddressCreate
     [''label'' \<mapsto> VStr ''Home'', ''full_address'' \<mapsto> VStr ''Jl. Sudirman 1'',
      ''city'' \<mapsto> VStr ''Jakarta'', ''state'' \<mapsto> VStr ''DKI'', ''postal_code'' \<mapsto> VStr ''10110'']
   = Inr [(''label'', VStr ''Home''), (''full_address'', VStr ''Jl. Sudirman 1''),
          (''city'', VStr ''Jakarta''), (''state'', VStr ''DKI''), (''postal_code'', VStr ''10110''),
          (''country'', VStr ''Indonesia''), (''is_default'', VBool False)]
   \<and> getattr [(''label'', VStr ''Home''), (''full_address'', VStr ''Jl. Sudirman 1''),
          (''city'', VStr ''Jakarta''), (''state'', VStr ''DKI''), (''postal_code'', VStr ''10110''),
          (''country'', VStr ''Indonesia''), (''is_default'', VBool False)] ''country''
       = Some (VStr ''Indonesia'')"
proof -
  have v: "model_validate 0 AddressCreate
     [''label'' \<mapsto> VStr ''Home'', ''full_address'' \<mapsto> VStr ''Jl. Sudirman 1'',
      ''city'' \<mapsto> VStr ''Jakarta'', ''state'' \<mapsto> VStr ''DKI'', ''postal_code'' \<mapsto> VStr ''10110'']
   = Inr [(''label'', VStr ''Home''), (''full_address'', VStr ''Jl. Sudirman 1''),
          (''city'', VStr ''Jakarta''), (''state'', VStr ''DKI''), (''postal_code'', VStr ''10110''),
          (''country'', VStr ''Indonesia''), (''is_default'', VBool False)]"
    by (simp add: ev AddressCreate_def)
  from address_defaults[OF disjI2[OF refl] v] v show ?thesis by simp
qed

text \<open>
  C10. A \<^verbatim>\<open>User\<close> or \<^verbatim>\<open>UserCreate\<close> validated from an input that gives no role has the
  role \<^verbatim>\<open>buyer\<close>, and a \<^verbatim>\<open>User\<close> validated from an input that gives no
  \<^verbatim>\<open>is_active\<close> flag is active.
\<close>

theorem user_defaults:
  assumes "model_validate now User inp = Inr u" "model_validate now' UserCreate inp' = Inr c"
  shows "(inp ''role'' = None \<longrightarrow> getattr u ''role'' = Some (VUserRole BUYER)) \<and>
         (inp ''is_active'' = None \<longrightarrow> getattr u ''is_active'' = Some (VBool True)) \<and>
         (inp' ''role'' = None \<longrightarrow> getattr c ''role'' = Some (VUserRole BUYER))"
proof -
  let ?r = "fld ''role'' TUserRole (Field\<lparr>dflt := Default (VUserRole BUYER)\<rparr>)"
  let ?a = "fld ''is_active'' TBool (Field\<lparr>dflt := Default (VBool True)\<rparr>)"
  have du: "distinct (map fname (model_fields User))"
    and dc: "distinct (map fname (model_fields UserCreate))"
    by (simp_all add: User_def UserCreate_def fld_def)
  have mu: "?r \<in> set (model_fields User)" "?a \<in> set (model_fields User)"
    and mc: "?r \<in> set (model_fields UserCreate)"
    by (simp_all add: User_def UserCreate_def)
  from getattr_validated[OF assms(1) du mu(1)]
  have 1: "inp ''role'' = None \<longrightarrow> getattr u ''role'' = Some (VUserRole BUYER)"
    by (auto simp: validate_field_def fld_def Field_def)
  from getattr_validated[OF assms(1) du mu(2)]
  have 2: "inp ''is_active'' = None \<longrightarrow> getattr u ''is_active'' = Some (VBool True)"
    by (auto simp: validate_field_def fld_def Field_def)
  from getattr_validated[OF assms(2) dc mc]
  have 3: "inp' ''role'' = None \<longrightarrow> getattr c ''role'' = Some (VUserRole BUYER)"
    by (auto simp: validate_field_def fld_def Field_def)
  from 1 2 3 show ?thesis by simp
qed

theorem user_defaults_witness:
  "model_validate 3 User
     [''email'' \<mapsto> VStr ''a@b.co'', ''password_hash'' \<mapsto> VStr ''x'', ''full_name'' \<mapsto> VStr ''A'']
   = Inr [(''id'', VNone), (''email'', VStr ''a@b.co''), (''password_hash'', VStr ''x''),
          (''full_name'', VStr ''A''), (''phone'', VNone), (''role'', VUserRole BUYER),
          (''is_active'', VBool True), (''created_at'', VDatetime 3), (''updated_at'', VDatetime 3)]
   \<and> model_validate 3 UserCreate
     [''email'' \<mapsto> VStr ''a@b.co'', ''password'' \<mapsto> VStr ''12345678'', ''full_name'' \<mapsto> VStr ''A'']
   = Inr [(''email'', VStr ''a@b.co''), (''password'', VStr ''12345678''),
          (''full_name'', VStr ''A''), (''phone'', VNone), (''role'', VUserRole BUYER)]
   \<and> getattr [(''id'', VNone), (''email'', VStr ''a@b.co''), (''password_hash'', VStr ''x''),
          (''full_name'', VStr ''A''), (''phone'', VNone), (''role'', VUserRole BUYER),
          (''is_active'', VBool True), (''created_at'', VDatetime 3), (''updated_at'', VDatetime 3)]
        ''is_active'' = Some (VBool True)"
proof -
  have u: "model_validate 3 User
     [''email'' \<mapsto> VStr ''a@b.co'', ''password_hash'' \<mapsto> VStr ''x'', ''full_name'' \<mapsto> VStr ''A'']
   = Inr [(''id'', VNone), (''email'', VStr ''a@b.co''), (''password_hash'', VStr ''x''),
          (''full_name'', VStr ''A''), (''phone'', VNone), (''role'', VUserRole BUYER),
          (''is_active'', VBool True), (''created_at'', VDatetime 3), (''updated_at'', VDatetime 3)]"
    by (simp add: ev User_def)
  have c: "model_validate 3 UserCreate
     [''email'' \<mapsto> VStr ''a@b.co'', ''password'' \<mapsto> VStr ''12345678'', ''full_name'' \<mapsto> VStr ''A'']
   = Inr [(''email'', VStr ''a@b.co''), (''password'', VStr ''12345678''),
          (''full_name'', VStr ''A''), (''phone'', VNone), (''role'', VUserRole BUYER)]"
    by (simp add: ev UserCreate_def)
  from user_defaults[OF u c] u c show ?thesis by simp
qed

section \<open>Ranges\<close>

lemma validate_split:
  assumes "f \<in> set (model_fields M)" "distinct (map fname (model_fields M))"
  shows "(\<exists>obj. model_validate now M inp = Inr obj) \<longleftrightarrow>
         (\<exists>v. validate_field now f inp = Inr v) \<and> others_valid now M (fname f) inp"
proof
  assume "\<exists>obj. model_validate now M inp = Inr obj"
  then have "\<forall>g \<in> set (model_fields M). \<exists>v. validate_field now g inp = Inr v"
    by (simp add: model_validate_Inr field_errors_Nil_iff)
  with assms show "(\<exists>v. validate_field now f inp = Inr v) \<and> others_valid now M (fname f) inp"
    by (simp add: others_valid_def field_errors_Nil_iff)
next
  assume a: "(\<exists>v. validate_field now f inp = Inr v) \<and> others_valid now M (fname f) inp"
  from assms(2) have inj: "inj_on fname (set (model_fields M))" by (simp add: distinct_map)
  have "\<exists>v. validate_field now g inp = Inr v" if g: "g \<in> set (model_fields M)" for g
  proof (cases "fname g = fname f")
    case True
    with inj g assms(1) have "g = f" by (auto dest: inj_onD)
    with a show ?thesis by simp
  next
    case False
    with a g show ?thesis by (simp add: others_valid_def field_errors_Nil_iff)
  qed
  then show "\<exists>obj. model_validate now M inp = Inr obj"
    by (simp add: model_validate_Inr field_errors_Nil_iff)
qed

lemma coerce_TInt: "coerce TInt v = Some w \<Longrightarrow> \<exists>r. w = VInt r"
  by (auto split: val.splits if_splits)

lemma int_range_field:
  assumes "inp n = Some v" "coerce TInt v = Some (VInt r)"
  shows "(\<exists>x. validate_field now (fld n TInt (Field\<lparr>ge := Some lo, le := Some hi\<rparr>)) inp = Inr x)
           \<longleftrightarrow> lo \<le> r \<and> r \<le> hi"
  using assms
  by (auto simp: validate_field_def fld_def Field_def check_int_def below_ge_def above_le_def
      split: if_splits)

lemma int_range_result:
  assumes "validate_field now (fld n TInt (Field\<lparr>ge := Some lo, le := Some hi\<rparr>)) inp = Inr x"
  shows "\<exists>r. x = VInt r \<and> lo \<le> r \<and> r \<le> hi"
proof -
  from assms obtain v w where v: "inp n = Some v" "coerce TInt v = Some w"
    by (auto simp: validate_field_def fld_def Field_def split: option.splits)
  from coerce_TInt[OF v(2)] obtain r where r: "w = VInt r" by blast
  with assms v have "x = VInt r"
    by (auto simp: validate_field_def fld_def Field_def split: option.splits)
  moreover from int_range_field[where inp = inp and n = n and v = v and r = r and now = now
      and lo = lo and hi = hi] v r assms
  have "lo \<le> r \<and> r \<le> hi" by blast
  ultimately show ?thesis by blast
qed

text \<open>
  C4. A \<^verbatim>\<open>ProductReview\<close> or \<^verbatim>\<open>ProductReviewCreate\<close> validates if and only if its rating
  is an integer from 1 to 5 (and its other attributes validate). The rating of every
  validated instance is an integer from 1 to 5. An input whose rating is the integer
  \<open>r\<close>, or is read as the integer \<open>r\<close> (a string of digits, a truth value, a whole
  decimal), validates exactly when \<open>r\<close> is from 1 to 5: a rating of 0 or 6 is a
  validation error, and each of 1, 2, 3, 4, 5 is accepted. A rating that is absent or
  \<^verbatim>\<open>None\<close> is a validation error.
\<close>

theorem review_rating_range:
  assumes "M = ProductReview \<or> M = ProductReviewCreate"
  shows "(\<forall>obj. model_validate now M inp = Inr obj \<longrightarrow>
            (\<exists>r. getattr obj ''rating'' = Some (VInt r) \<and> 1 \<le> r \<and> r \<le> 5)) \<and>
         (\<forall>v r. inp ''rating'' = Some v \<longrightarrow> coerce TInt v = Some (VInt r) \<longrightarrow>
            ((\<exists>obj. model_validate now M inp = Inr obj) \<longleftrightarrow>
             1 \<le> r \<and> r \<le> 5 \<and> others_valid now M ''rating'' inp)) \<and>
         (\<forall>r. inp ''rating'' = Some (VInt r) \<longrightarrow>
            ((\<exists>obj. model_validate now M inp = Inr obj) \<longleftrightarrow>
             r \<in> {1, 2, 3, 4, 5} \<and> others_valid now M ''rating'' inp)) \<and>
         (inp ''rating'' = None \<or> inp ''rating'' = Some VNone \<longrightarrow>
            (\<exists>errs. model_validate now M inp = Inl errs))"
proof -
  let ?f = "fld ''rating'' TInt (Field\<lparr>ge := Some 1, le := Some 5\<rparr>)"
  from assms have mem: "?f \<in> set (model_fields M)"
    by (auto simp: ProductReview_def ProductReviewCreate_def)
  from assms have dist: "distinct (map fname (model_fields M))"
    by (auto simp: ProductReview_def ProductReviewCreate_def fld_def)
  have n: "fname ?f = ''rating''" by (simp add: fld_def)
  note split = validate_split[OF mem dist, of now inp, unfolded n]
  have 1: "\<exists>r. getattr obj ''rating'' = Some (VInt r) \<and> 1 \<le> r \<and> r \<le> 5"
    if v: "model_validate now M inp = Inr obj" for obj
  proof -
    from getattr_validated[OF v dist mem] obtain x
      where x: "validate_field now ?f inp = Inr x" "getattr obj ''rating'' = Some x"
      by (auto simp: n)
    from int_range_result[OF x(1)] x(2) show ?thesis by auto
  qed
  have 2: "(\<exists>obj. model_validate now M inp = Inr obj) \<longleftrightarrow>
             1 \<le> r \<and> r \<le> 5 \<and> others_valid now M ''rating'' inp"
    if "inp ''rating'' = Some v" "coerce TInt v = Some (VInt r)" for v r
    using split that int_range_field[where inp = inp and n = "''rating''" and v = v and r = r
        and now = now and lo = 1 and hi = 5]
    by simp
  have 3: "(\<exists>obj. model_validate now M inp = Inr obj) \<longleftrightarrow>
             r \<in> {1, 2, 3, 4, 5} \<and> others_valid now M ''rating'' inp"
    if i: "inp ''rating'' = Some (VInt r)" for r
  proof -
    have "coerce TInt (VInt r) = Some (VInt r)" by simp
    from 2[OF i this] show ?thesis by auto
  qed
  have 4: "\<exists>errs. model_validate now M inp = Inl errs"
    if "inp ''rating'' = None \<or> inp ''rating'' = Some VNone"
  proof -
    from that have "\<exists>e. validate_field now ?f inp = Inl e"
      by (auto simp: validate_field_def fld_def Field_def)
    then obtain e where "validate_field now ?f inp = Inl e" by blast
    from field_fails_model_fails[OF mem this] show ?thesis by blast
  qed
  from 1 2 3 4 show ?thesis by blast
qed

theorem review_rating_range_witness:
  "(\<exists>obj. model_validate 0 ProductReviewCreate [''rating'' \<mapsto> VInt 5] = Inr obj \<and>
          getattr obj ''rating'' = Some (VInt 5)) \<and>
   others_valid 0 ProductReviewCreate ''rating'' [''rating'' \<mapsto> VInt 5] \<and>
   coerce TInt (VStr ''3'') = Some (VInt 3) \<and>
   (\<exists>obj. model_validate 0 ProductReviewCreate [''rating'' \<mapsto> VStr ''3''] = Inr obj) \<and>
   \<not> (\<exists>obj. model_validate 0 ProductReviewCreate [''rating'' \<mapsto> VInt 0] = Inr obj) \<and>
   \<not> (\<exists>obj. model_validate 0 ProductReviewCreate [''rating'' \<mapsto> VInt 6] = Inr obj) \<and>
   \<not> (\<exists>obj. model_validate 0 ProductReview
          [''product_id'' \<mapsto> VInt 1, ''user_id'' \<mapsto> VInt 2, ''rating'' \<mapsto> VInt 6] = Inr obj) \<and>
   (\<exists>errs. model_validate 0 ProductReviewCreate Map.empty = Inl errs)"
proof -
  note c = review_rating_range[OF disjI2[OF refl], where now = 0]
  note e = review_rating_range[OF disjI1[OF refl], where now = 0]
  have o5: "others_valid 0 ProductReviewCreate ''rating'' [''rating'' \<mapsto> VInt 5]"
    and o3: "others_valid 0 ProductReviewCreate ''rating'' [''rating'' \<mapsto> VStr ''3'']"
    by (simp_all add: others_valid_def ProductReviewCreate_def validate_field_def fld_def Field_def)
  have s3: "coerce TInt (VStr ''3'') = Some (VInt 3)" by (simp add: ev)
  have i5: "[''rating'' \<mapsto> VInt 5] ''rating'' = Some (VInt 5)"
    and i3: "[''rating'' \<mapsto> VStr ''3''] ''rating'' = Some (VStr ''3'')"
    and i0: "[''rating'' \<mapsto> VInt 0] ''rating'' = Some (VInt 0)"
    and i6: "[''rating'' \<mapsto> VInt 6] ''rating'' = Some (VInt 6)"
    and j6: "[''product_id'' \<mapsto> VInt 1, ''user_id'' \<mapsto> VInt 2, ''rating'' \<mapsto> VInt 6] ''rating''
               = Some (VInt 6)"
    and em: "(Map.empty :: string \<rightharpoonup> val) ''rating'' = None" by simp_all
  from c[of "[''rating'' \<mapsto> VInt 5]"] i5 o5
  obtain obj where obj: "model_validate 0 ProductReviewCreate [''rating'' \<mapsto> VInt 5] = Inr obj"
    by auto
  with c[of "[''rating'' \<mapsto> VInt 5]"] obtain r where "getattr obj ''rating'' = Some (VInt r)"
    by blast
  moreover from obj have "getattr obj ''rating'' = Some (VInt 5)"
    by (auto simp: ev ProductReviewCreate_def)
  ultimately have a: "\<exists>obj. model_validate 0 ProductReviewCreate [''rating'' \<mapsto> VInt 5] = Inr obj \<and>
          getattr obj ''rating'' = Some (VInt 5)" using obj by blast
  from c[of "[''rating'' \<mapsto> VStr ''3'']"] i3 s3 o3
  have b: "\<exists>obj. model_validate 0 ProductReviewCreate [''rating'' \<mapsto> VStr ''3''] = Inr obj"
    by auto
  from c[of "[''rating'' \<mapsto> VInt 0]"] i0
  have z: "\<not> (\<exists>obj. model_validate 0 ProductReviewCreate [''rating'' \<mapsto> VInt 0] = Inr obj)"
    by auto
  from c[of "[''rating'' \<mapsto> VInt 6]"] i6
  have s: "\<not> (\<exists>obj. model_validate 0 ProductReviewCreate [''rating'' \<mapsto> VInt 6] = Inr obj)"
    by auto
  from e[of "[''product_id'' \<mapsto> VInt 1, ''user_id'' \<mapsto> VInt 2, ''rating'' \<mapsto> VInt 6]"] j6
  have t: "\<not> (\<exists>obj. model_validate 0 ProductReview
          [''product_id'' \<mapsto> VInt 1, ''user_id'' \<mapsto> VInt 2, ''rating'' \<mapsto> VInt 6] = Inr obj)"
    by auto
  from c[of Map.empty] em
  have m: "\<exists>errs. model_validate 0 ProductReviewCreate Map.empty = Inl errs" by blast
  from a o5 s3 b z s t m show ?thesis by blast
qed

text \<open>Each of the five ratings is accepted, by both models.\<close>

lemma review_ratings_accepted:
  assumes "1 \<le> r" "r \<le> 5"
  shows "model_validate now ProductReviewCreate [''rating'' \<mapsto> VInt r]
           = Inr [(''rating'', VInt r), (''title'', VNone), (''comment'', VNone), (''images'', VList [])]"
    and "model_validate now ProductReview
           [''product_id'' \<mapsto> VInt p, ''user_id'' \<mapsto> VInt u, ''rating'' \<mapsto> VInt r]
           = Inr [(''id'', VNone), (''product_id'', VInt p), (''user_id'', VInt u),
                  (''order_item_id'', VNone), (''rating'', VInt r), (''title'', VNone),
                  (''comment'', VNone), (''images'', VList []),
                  (''is_verified_purchase'', VBool False), (''helpful_count'', VInt 0),
                  (''created_at'', VDatetime now)]"
  using assms by (simp_all add: ev ProductReviewCreate_def ProductReview_def)

text \<open>
  The two request shapes of a cart item declare \<^verbatim>\<open>ge=1\<close> on the quantity and refuse a
  smaller one.
\<close>

lemma cart_item_shapes_reject:
  assumes "M = CartItemCreate \<or> M = CartItemUpdate" "inp ''quantity'' = Some (VInt q)" "q < 1"
  shows "\<exists>errs. model_validate now M inp = Inl errs \<and> (''quantity'', NotGeError 1) \<in> set errs"
proof -
  from assms(1)
  have "list_ex (\<lambda>f. fname f = ''quantity'' \<and> ftyp f = TInt \<and> ge (finfo f) = Some 1)
          (model_fields M)"
    by (auto simp: CartItemCreate_def CartItemUpdate_def fld_def Field_def)
  then obtain f where f: "f \<in> set (model_fields M)" "fname f = ''quantity''"
    "ftyp f = TInt" "ge (finfo f) = Some 1"
    unfolding list_ex_iff by blast
  from f(2-) assms(2,3) have "validate_field now f inp = Inl (NotGeError 1)"
    by (simp add: validate_field_def check_int_def below_ge_def)
  from field_fails_model_fails[OF f(1) this] f(2) show ?thesis by simp
qed

text \<open>
  C2. The claim is that a cart item validates only with a quantity of at least 1, as an
  entity and as a request shape. The request shapes behave so (lemma
  \<open>cart_item_shapes_reject\<close>). The entity \<^verbatim>\<open>CartItem\<close> declares its quantity as
  \<^verbatim>\<open>Field(default=1)\<close>, without the bound: a cart item with the quantity 0 validates.
\<close>

theorem cart_item_accepts_zero:
  "model_validate now CartItem
     [''user_id'' \<mapsto> VInt 1, ''product_id'' \<mapsto> VInt 1, ''quantity'' \<mapsto> VInt 0]
   = Inr [(''id'', VNone), (''user_id'', VInt 1), (''product_id'', VInt 1),
          (''quantity'', VInt 0), (''added_at'', VDatetime now)]"
  by (simp add: ev CartItem_def)

section \<open>Identity and timestamps\<close>

text \<open>
  C8. The claim is that each of the ten persistent entities has a numeric identity and a
  created-at timestamp. It fails at \<^verbatim>\<open>OrderItem\<close>, which has no \<^verbatim>\<open>created_at\<close>.
\<close>

theorem entity_fields_counterexample:
  "\<not> (has_identity OrderItem \<and> has_created_at OrderItem)"
  by (simp add: has_created_at_def lookup_field_def OrderItem_def fld_def)

text \<open>
  C8, amended. Every persistent entity has the identity \<^verbatim>\<open>id\<close>, its primary key. Eight
  of them have a \<^verbatim>\<open>created_at\<close> timestamp. \<^verbatim>\<open>CartItem\<close> has none of that name: its
  timestamp, filled from the clock, is \<^verbatim>\<open>added_at\<close>. \<^verbatim>\<open>OrderItem\<close> has no timestamp at
  all. The table lists, for each entity, whether it has an identity, whether it has
  \<^verbatim>\<open>created_at\<close>, and its attributes filled from the clock.
\<close>

theorem entity_identity_and_timestamps:
  "map (\<lambda>(n, M). (n, has_identity M, has_created_at M, clock_fields M)) persistent_models =
     [(''User'', True, True, [''created_at'', ''updated_at'']),
      (''Address'', True, True, [''created_at'']),
      (''SellerProfile'', True, True, [''created_at'']),
      (''Category'', True, True, [''created_at'']),
      (''Product'', True, True, [''created_at'', ''updated_at'']),
      (''CartItem'', True, False, [''added_at'']),
      (''Order'', True, True, [''created_at'', ''updated_at'']),
      (''OrderItem'', True, False, []),
      (''Delivery'', True, True, [''created_at'', ''updated_at'']),
      (''ProductReview'', True, True, [''created_at''])]"
  unfolding persistent_models_def list.map prod.case
  by (simp add: has_identity_def has_created_at_def clock_fields_def lookup_field_def fld_def Field_def
      User_def Address_def SellerProfile_def Category_def Product_def CartItem_def Order_def
      OrderItem_def Delivery_def ProductReview_def)

section \<open>Exact decimals: digits and value\<close>














section \<open>Decimal fields\<close>









section \<open>Seller ratings\<close>


text \<open>A negative rating validates as well.\<close>

lemma seller_rating_negative:
  "model_validate 0 SellerProfile
     [''user_id'' \<mapsto> VInt 1, ''store_name'' \<mapsto> VStr ''s'', ''rating'' \<mapsto> VStr ''-1'']
   = Inr [(''id'', VNone), (''user_id'', VInt 1), (''store_name'', VStr ''s''),
          (''store_description'', VNone), (''store_logo_url'', VNone),
          (''business_license'', VNone), (''is_verified'', VBool False),
          (''rating'', VDecimal \<lparr>dsign = True, dcoeff = 1, dexp = 0\<rparr>),
          (''total_sales'', VInt 0), (''created_at'', VDatetime 0)]"
  by (simp add: ev SellerProfile_def)




section \<open>E-mail addresses\<close>

lemma reps_Cons:
  "c # w \<in> reps A \<longleftrightarrow> (\<exists>u v. w = u @ v \<and> c # u \<in> A \<and> v \<in> reps A)"
proof
  assume "c # w \<in> reps A"
  then show "\<exists>u v. w = u @ v \<and> c # u \<in> A \<and> v \<in> reps A"
  proof (induction "c # w" rule: reps.induct)
    case (reps_more u v)
    show ?case
    proof (cases u)
      case Nil
      with reps_more show ?thesis by simp
    next
      case (Cons a u')
      with reps_more show ?thesis by auto
    qed
  qed
next
  assume "\<exists>u v. w = u @ v \<and> c # u \<in> A \<and> v \<in> reps A"
  then obtain u v where "w = u @ v" "c # u \<in> A" "v \<in> reps A" by blast
  then show "c # w \<in> reps A" using reps_more[of "c # u" A v] by simp
qed

lemma nullable_denotes: "nullable r \<longleftrightarrow> [] \<in> denotes r"
  by (induction r) (auto intro: reps_nil)

lemma denotes_TimesI: "u \<in> denotes r \<Longrightarrow> v \<in> denotes s \<Longrightarrow> u @ v \<in> denotes (Times r s)"
  by auto

lemma deriv_denotes: "w \<in> denotes (deriv c r) \<longleftrightarrow> c # w \<in> denotes r"
proof (induction r arbitrary: w)
  case (Times r s)
  show ?case
  proof (cases "nullable r")
    case True
    then have e: "[] \<in> denotes r" by (simp add: nullable_denotes)
    show ?thesis
    proof
      assume "w \<in> denotes (deriv c (Times r s))"
      with True Times consider (l) u v where "w = u @ v" "c # u \<in> denotes r" "v \<in> denotes s"
        | (r) "c # w \<in> denotes s" by auto
      then show "c # w \<in> denotes (Times r s)"
      proof cases
        case l
        from denotes_TimesI[OF l(2,3)] l(1) show ?thesis by simp
      next
        case r
        from denotes_TimesI[OF e r] show ?thesis by simp
      qed
    next
      assume "c # w \<in> denotes (Times r s)"
      then obtain u v where uv: "c # w = u @ v" "u \<in> denotes r" "v \<in> denotes s" by auto
      show "w \<in> denotes (deriv c (Times r s))"
      proof (cases u)
        case Nil
        with uv True Times show ?thesis by simp
      next
        case (Cons a u')
        with uv have "a = c" "w = u' @ v" by simp_all
        with uv Cons True Times show ?thesis by auto
      qed
    qed
  next
    case False
    then have e: "[] \<notin> denotes r" by (simp add: nullable_denotes)
    show ?thesis
    proof
      assume "w \<in> denotes (deriv c (Times r s))"
      with False Times obtain u v where l: "w = u @ v" "c # u \<in> denotes r" "v \<in> denotes s" by auto
      from denotes_TimesI[OF l(2,3)] l(1) show "c # w \<in> denotes (Times r s)" by simp
    next
      assume "c # w \<in> denotes (Times r s)"
      then obtain u v where uv: "c # w = u @ v" "u \<in> denotes r" "v \<in> denotes s" by auto
      with e obtain u' where "u = c # u'" "w = u' @ v" by (cases u) auto
      with uv False Times show "w \<in> denotes (deriv c (Times r s))" by auto
    qed
  qed
next
  case (Star r)
  then show ?case by (auto simp: reps_Cons)
qed auto

lemma re_match_denotes: "re_match r w \<longleftrightarrow> w \<in> denotes r"
  by (induction w arbitrary: r) (simp_all add: nullable_denotes deriv_denotes)

lemma reps_Atom: "reps (denotes (Atom cs)) = {w. set w \<subseteq> set cs}"
proof (intro set_eqI iffI)
  fix w assume "w \<in> reps (denotes (Atom cs))"
  then show "w \<in> {w. set w \<subseteq> set cs}" by (induction rule: reps.induct) auto
next
  fix w assume "w \<in> {w. set w \<subseteq> set cs}"
  then have "set w \<subseteq> set cs" by simp
  then show "w \<in> reps (denotes (Atom cs))"
  proof (induction w)
    case Nil
    show ?case by (rule reps_nil)
  next
    case (Cons a w)
    then have "[a] \<in> denotes (Atom cs)" "w \<in> reps (denotes (Atom cs))" by simp_all
    from reps_more[OF this] show ?case by simp
  qed
qed

lemma denotes_Plus_Atom: "denotes (Plus (Atom cs)) = {w. w \<noteq> [] \<and> set w \<subseteq> set cs}"
proof (intro set_eqI iffI)
  fix w assume "w \<in> denotes (Plus (Atom cs))"
  then show "w \<in> {w. w \<noteq> [] \<and> set w \<subseteq> set cs}"
    unfolding Plus_def denotes.simps(5,6) reps_Atom by auto
next
  fix w assume "w \<in> {w. w \<noteq> [] \<and> set w \<subseteq> set cs}"
  then obtain c v where w: "w = [c] @ v" "c \<in> set cs" "set v \<subseteq> set cs" by (cases w) auto
  then have "[c] \<in> denotes (Atom cs)" by simp
  moreover from w have "v \<in> reps (denotes (Atom cs))" unfolding reps_Atom by simp
  ultimately show "w \<in> denotes (Plus (Atom cs))"
    unfolding Plus_def denotes.simps(5,6) using w(1) by blast
qed

lemma denotes_single: "denotes (Atom [c]) = {[c]}"
  by auto

lemma denotes_email_regex:
  "s \<in> denotes email_regex \<longleftrightarrow>
     (\<exists>l d t. s = l @ ''@'' @ d @ ''.'' @ t \<and>
        l \<in> denotes (Plus (Atom local_chars)) \<and> d \<in> denotes (Plus (Atom domain_chars)) \<and>
        t \<in> denotes (Plus (Atom tld_chars)))"
proof
  assume "s \<in> denotes email_regex"
  then obtain l r1 where 1: "s = l @ r1" "l \<in> denotes (Plus (Atom local_chars))"
      "r1 \<in> denotes (Times (Atom ''@'') (Times (Plus (Atom domain_chars))
                (Times (Atom ''.'') (Plus (Atom tld_chars)))))"
    unfolding email_regex_def denotes.simps(5) by blast
  from 1(3) obtain a r2 where 2: "r1 = a @ r2" "a \<in> denotes (Atom ''@'')"
      "r2 \<in> denotes (Times (Plus (Atom domain_chars)) (Times (Atom ''.'') (Plus (Atom tld_chars))))"
    unfolding denotes.simps(5) by blast
  from 2(3) obtain d r3 where 3: "r2 = d @ r3" "d \<in> denotes (Plus (Atom domain_chars))"
      "r3 \<in> denotes (Times (Atom ''.'') (Plus (Atom tld_chars)))"
    unfolding denotes.simps(5) by blast
  from 3(3) obtain p t where 4: "r3 = p @ t" "p \<in> denotes (Atom ''.'')"
      "t \<in> denotes (Plus (Atom tld_chars))"
    unfolding denotes.simps(5) by blast
  from 2(2) 4(2) have "a = ''@''" "p = ''.''" unfolding denotes_single by simp_all
  with 1 2 3 4 have "s = l @ ''@'' @ d @ ''.'' @ t" by simp
  with 1(2) 3(2) 4(3)
  show "\<exists>l d t. s = l @ ''@'' @ d @ ''.'' @ t \<and>
        l \<in> denotes (Plus (Atom local_chars)) \<and> d \<in> denotes (Plus (Atom domain_chars)) \<and>
        t \<in> denotes (Plus (Atom tld_chars))" by blast
next
  assume "\<exists>l d t. s = l @ ''@'' @ d @ ''.'' @ t \<and>
        l \<in> denotes (Plus (Atom local_chars)) \<and> d \<in> denotes (Plus (Atom domain_chars)) \<and>
        t \<in> denotes (Plus (Atom tld_chars))"
  then obtain l d t where s: "s = l @ ''@'' @ d @ ''.'' @ t"
    and l: "l \<in> denotes (Plus (Atom local_chars))"
    and d: "d \<in> denotes (Plus (Atom domain_chars))"
    and t: "t \<in> denotes (Plus (Atom tld_chars))" by blast
  have dot: "''.'' \<in> denotes (Atom ''.'')" and at: "''@'' \<in> denotes (Atom ''@'')"
    unfolding denotes_single by simp_all
  from dot t have 4: "''.'' @ t \<in> denotes (Times (Atom ''.'') (Plus (Atom tld_chars)))"
    unfolding denotes.simps(5) by blast
  from d 4 have 3: "d @ ''.'' @ t \<in>
      denotes (Times (Plus (Atom domain_chars)) (Times (Atom ''.'') (Plus (Atom tld_chars))))"
    unfolding denotes.simps(5) by blast
  from at 3 have 2: "''@'' @ d @ ''.'' @ t \<in>
      denotes (Times (Atom ''@'') (Times (Plus (Atom domain_chars))
                (Times (Atom ''.'') (Plus (Atom tld_chars)))))"
    unfolding denotes.simps(5) by blast
  from l 2 show "s \<in> denotes email_regex"
    unfolding email_regex_def s denotes.simps(5) by blast
qed

text \<open>The pattern of the schema accepts exactly the addresses of that shape.\<close>

lemma email_regex_shape: "re_match email_regex s \<longleftrightarrow> is_email_shape s"
  unfolding re_match_denotes denotes_email_regex denotes_Plus_Atom is_email_shape_def
  by blast

lemma not_an_email: "\<not> re_match email_regex ''not-an-email''"
  by (simp add: email_regex_def Plus_def local_chars_def domain_chars_def tld_chars_def alnum_def)

lemma a_b_co: "re_match email_regex ''a@b.co''"
  by (simp add: email_regex_def Plus_def local_chars_def domain_chars_def tld_chars_def alnum_def)

text \<open>
  Both models declare the expression for the address, as \<^verbatim>\<open>regex=\<close>, and neither declares
  a \<^verbatim>\<open>pattern\<close>.
\<close>

lemma email_declarations:
  assumes "M = User \<or> M = UserCreate"
  shows "\<exists>f \<in> set (model_fields M). fname f = ''email'' \<and> ftyp f = TStr \<and>
           regex (finfo f) = Some email_regex \<and> pattern (finfo f) = None \<and>
           max_length (finfo f) = Some 255"
  using assms by (auto simp: User_def UserCreate_def fld_def Field_def)

text \<open>
  A \<^verbatim>\<open>UserCreate\<close> with the address \<^verbatim>\<open>"a@b.co"\<close> and a password of exactly 8 characters
  validates, and a shorter password is refused.
\<close>

lemma user_create_password:
  shows "length pw = 8 \<Longrightarrow> length name \<le> 100 \<Longrightarrow>
           model_validate now UserCreate
             [''email'' \<mapsto> VStr ''a@b.co'', ''password'' \<mapsto> VStr pw, ''full_name'' \<mapsto> VStr name]
           = Inr [(''email'', VStr ''a@b.co''), (''password'', VStr pw), (''full_name'', VStr name),
                  (''phone'', VNone), (''role'', VUserRole BUYER)]"
    and "inp ''password'' = Some (VStr pw) \<Longrightarrow> length pw < 8 \<Longrightarrow>
           \<exists>errs. model_validate now UserCreate inp = Inl errs \<and>
                  (''password'', MinLengthError 8) \<in> set errs"
proof -
  show "model_validate now UserCreate
             [''email'' \<mapsto> VStr ''a@b.co'', ''password'' \<mapsto> VStr pw, ''full_name'' \<mapsto> VStr name]
           = Inr [(''email'', VStr ''a@b.co''), (''password'', VStr pw), (''full_name'', VStr name),
                  (''phone'', VNone), (''role'', VUserRole BUYER)]"
    if "length pw = 8" "length name \<le> 100"
    using that by (simp add: ev UserCreate_def)
  show "\<exists>errs. model_validate now UserCreate inp = Inl errs \<and>
                  (''password'', MinLengthError 8) \<in> set errs"
    if "inp ''password'' = Some (VStr pw)" "length pw < 8"
  proof -
    let ?p = "fld ''password'' TStr (Field\<lparr>max_length := Some 100, min_length := Some 8\<rparr>)"
    have pm: "?p \<in> set (model_fields UserCreate)" by (simp add: UserCreate_def)
    from that have "validate_field now ?p inp = Inl (MinLengthError 8)"
      by (simp add: validate_field_def fld_def Field_def check_str_def too_short_def)
    from field_fails_model_fails[OF pm this] show ?thesis by (simp add: fld_def)
  qed
qed

text \<open>
  C5. The claim is that the address of a \<^verbatim>\<open>User\<close> or \<^verbatim>\<open>UserCreate\<close> must have the shape
  \<^verbatim>\<open>local@domain.tld\<close> and that \<^verbatim>\<open>"not-an-email"\<close> is refused. The expression that both
  models declare does refuse that string (it accepts exactly the addresses of that
  shape), but it is declared under the keyword \<^verbatim>\<open>regex\<close>, which validation does not
  read: a \<^verbatim>\<open>UserCreate\<close> and a \<^verbatim>\<open>User\<close> with the address \<^verbatim>\<open>"not-an-email"\<close> validate.
\<close>

theorem email_not_checked:
  "model_validate now UserCreate
     [''email'' \<mapsto> VStr ''not-an-email'', ''password'' \<mapsto> VStr ''12345678'',
      ''full_name'' \<mapsto> VStr ''A'']
   = Inr [(''email'', VStr ''not-an-email''), (''password'', VStr ''12345678''),
          (''full_name'', VStr ''A''), (''phone'', VNone), (''role'', VUserRole BUYER)] \<and>
   model_validate now User
     [''email'' \<mapsto> VStr ''not-an-email'', ''password_hash'' \<mapsto> VStr ''x'',
      ''full_name'' \<mapsto> VStr ''A'']
   = Inr [(''id'', VNone), (''email'', VStr ''not-an-email''), (''password_hash'', VStr ''x''),
          (''full_name'', VStr ''A''), (''phone'', VNone), (''role'', VUserRole BUYER),
          (''is_active'', VBool True), (''created_at'', VDatetime now),
          (''updated_at'', VDatetime now)] \<and>
   \<not> re_match email_regex ''not-an-email'' \<and> \<not> is_email_shape ''not-an-email''"
proof -
  have "\<not> is_email_shape ''not-an-email''" using not_an_email unfolding email_regex_shape .
  with not_an_email show ?thesis by (simp add: ev UserCreate_def User_def)
qed

section \<open>Unique columns\<close>

lemma check_row_None:
  assumes "check_row M tbl r = None"
  shows "c \<in> set (not_null_columns M) \<Longrightarrow> \<not> is_null (getattr r c)"
    and "c \<in> set (unique_columns M) \<Longrightarrow> \<not> collides tbl c r"
  using assms by (auto simp: check_row_def find_None_iff split: option.splits)

lemma check_row_fresh:
  assumes "check_row M tbl r = None" "c \<in> set (not_null_columns M)" "c \<in> set (unique_columns M)"
  shows "getattr r c \<notin> (\<lambda>r'. getattr r' c) ` set tbl" and "\<not> is_null (getattr r c)"
proof -
  from check_row_None[OF assms(1)] assms(2,3)
  have n: "\<not> is_null (getattr r c)" and k: "\<not> collides tbl c r" by simp_all
  from n k show "getattr r c \<notin> (\<lambda>r'. getattr r' c) ` set tbl"
    by (auto simp: collides_def list_ex_iff)
  from n show "\<not> is_null (getattr r c)" .
qed

lemma key_column_delete: "key_column c tbl \<Longrightarrow> key_column c (db_delete tbl i)"
proof -
  assume k: "key_column c tbl"
  let ?g = "\<lambda>r. getattr r c"
  have s: "set (db_delete tbl i) \<subseteq> set tbl"
    unfolding db_delete_def using set_take_subset[of i tbl] set_drop_subset[of "Suc i" tbl] by auto
  have "distinct (map ?g (take i tbl @ drop i tbl))" using k by (simp add: key_column_def)
  then have 1: "distinct (map ?g (take i tbl))" and 2: "distinct (map ?g (drop i tbl))"
    and 3: "?g ` set (take i tbl) \<inter> ?g ` set (drop i tbl) = {}"
    by (simp_all only: map_append distinct_append set_map) 
  have e: "drop (Suc i) tbl = tl (drop i tbl)" by (simp add: drop_Suc tl_drop)
  have sub: "set (drop (Suc i) tbl) \<subseteq> set (drop i tbl)"
    unfolding e by (cases "drop i tbl") auto
  from 2 have "distinct (map ?g (drop (Suc i) tbl))"
    unfolding e by (cases "drop i tbl") auto
  with 1 3 sub have "distinct (map ?g (take i tbl @ drop (Suc i) tbl))" by auto
  with s k show ?thesis by (auto simp: key_column_def db_delete_def)
qed

lemma key_column_insert:
  assumes "key_column c tbl" "db_insert M tbl r = Inr tbl'"
    "c \<in> set (not_null_columns M)" "c \<in> set (unique_columns M)"
  shows "key_column c tbl'"
proof -
  from assms(2) have ok: "check_row M tbl r = None" and t: "tbl' = tbl @ [r]"
    by (auto simp: db_insert_def split: option.splits)
  from check_row_fresh[OF ok assms(3,4)] assms(1) show ?thesis
    by (auto simp: key_column_def t)
qed

lemma key_column_update:
  assumes "key_column c tbl" "db_update M tbl i r = Inr tbl'"
    "c \<in> set (not_null_columns M)" "c \<in> set (unique_columns M)"
  shows "key_column c tbl'"
proof (cases "i < length tbl")
  case False
  with assms(1,2) show ?thesis by (simp add: db_update_def)
next
  case True
  with assms(2) have ok: "check_row M (db_delete tbl i) r = None"
    and t: "tbl' = take i tbl @ r # drop (Suc i) tbl"
    by (auto simp: db_update_def split: option.splits)
  from key_column_delete[OF assms(1), of i]
  have d: "key_column c (take i tbl @ drop (Suc i) tbl)" by (simp add: db_delete_def)
  from check_row_fresh[OF ok assms(3,4)]
  have f: "getattr r c \<notin> (\<lambda>r'. getattr r' c) ` set (take i tbl @ drop (Suc i) tbl)"
    and n: "\<not> is_null (getattr r c)" by (simp_all add: db_delete_def)
  from d f n show ?thesis unfolding t key_column_def by auto
qed

lemma reachable_key_column:
  assumes "reachable M tbl" "c \<in> set (not_null_columns M)" "c \<in> set (unique_columns M)"
  shows "key_column c tbl"
  using assms
proof (induction rule: reachable.induct)
  case empty
  show ?case by (simp add: key_column_def)
next
  case (insert tbl r tbl')
  then show ?case by (auto intro: key_column_insert)
next
  case (update tbl i r tbl')
  then show ?case by (auto intro: key_column_update)
next
  case (delete tbl i)
  then show ?case by (auto intro: key_column_delete)
qed

text \<open>
  C6. In every state of the \<^verbatim>\<open>deliveries\<close> table that inserts, updates and deletes can
  reach, no two rows have the same \<^verbatim>\<open>order_id\<close> (and none lacks it): an order has at
  most one delivery.
\<close>

theorem delivery_order_unique:
  assumes "reachable Delivery tbl"
  shows "distinct (map (\<lambda>r. getattr r ''order_id'') tbl) \<and>
         (\<forall>i < length tbl. \<forall>j < length tbl.
            getattr (tbl ! i) ''order_id'' = getattr (tbl ! j) ''order_id'' \<longrightarrow> i = j) \<and>
         (\<forall>r \<in> set tbl. \<not> is_null (getattr r ''order_id''))"
proof -
  have n: "''order_id'' \<in> set (not_null_columns Delivery)"
    by (simp add: not_null_columns_def Delivery_def fld_def)
  have u: "''order_id'' \<in> set (unique_columns Delivery)"
    by (simp add: unique_columns_def Delivery_def fld_def Field_def)
  from reachable_key_column[OF assms n u]
  have d: "distinct (map (\<lambda>r. getattr r ''order_id'') tbl)"
    and nn: "\<forall>r \<in> set tbl. \<not> is_null (getattr r ''order_id'')" by (simp_all add: key_column_def)
  from d have "\<forall>i < length tbl. \<forall>j < length tbl.
            getattr (tbl ! i) ''order_id'' = getattr (tbl ! j) ''order_id'' \<longrightarrow> i = j"
    by (auto simp: distinct_conv_nth)
  with d nn show ?thesis by simp
qed

lemma example_delivery_valid:
  "model_validate 0 Delivery
     [''order_id'' \<mapsto> VInt k, ''courier_name'' \<mapsto> VStr ''JNE'', ''pickup_address'' \<mapsto> VStr ''Jl. A'',
      ''delivery_address'' \<mapsto> VStr ''Jl. B'', ''delivery_fee'' \<mapsto> VStr ''9500'']
   = Inr (example_delivery k)"
  by (simp add: ev Delivery_def example_delivery_def)

lemmas db_eval = db_insert_def check_row_def not_null_columns_def unique_columns_def collides_def
  is_null_def getattr_def example_delivery_def Delivery_def fld_def Field_def

theorem delivery_order_unique_witness:
  "reachable Delivery [example_delivery 1, example_delivery 2] \<and>
   distinct (map (\<lambda>r. getattr r ''order_id'') [example_delivery 1, example_delivery 2]) \<and>
   db_insert Delivery [example_delivery 1, example_delivery 2] (example_delivery 1)
     = Inl (IntegrityError ''order_id'')"
proof -
  have 1: "db_insert Delivery [] (example_delivery 1) = Inr [example_delivery 1]"
    by (simp add: db_eval)
  have 2: "db_insert Delivery [example_delivery 1] (example_delivery 2)
             = Inr [example_delivery 1, example_delivery 2]"
    by (simp add: db_eval)
  have 3: "db_insert Delivery [example_delivery 1, example_delivery 2] (example_delivery 1)
             = Inl (IntegrityError ''order_id'')"
    by (simp add: db_eval)
  from reachable.insert[OF reachable.insert[OF reachable.empty 1] 2]
  have r: "reachable Delivery [example_delivery 1, example_delivery 2]" .
  from delivery_order_unique[OF r] r 3 show ?thesis by simp
qed

section \<open>From request shapes to entities\<close>

lemma coerce_idem: "coerce t v = Some w \<Longrightarrow> coerce t w = Some w"
proof (induction t v arbitrary: w rule: coerce.induct)
  case (1 t v)
  then show ?case by (cases "v = VNone") auto
qed (auto split: val.splits if_splits)

lemma check_decimal_cong:
  "max_digits e = max_digits c \<Longrightarrow> decimal_places e = decimal_places c \<Longrightarrow>
   check_decimal e d = check_decimal c d"
  by (simp add: check_decimal_def split: prod.splits option.splits)

lemma check_covered:
  assumes "constraints_covered c e" "check_constraints c v = None"
  shows "check_constraints e v = None"
proof (cases v)
  case (VStr s)
  with assms show ?thesis
    by (auto simp: constraints_covered_def weaker_opt_def check_str_def too_short_def too_long_def
        pattern_fails_def split: if_splits)
next
  case (VInt n)
  with assms show ?thesis
    by (auto simp: constraints_covered_def weaker_opt_def check_int_def below_ge_def above_le_def
        split: if_splits)
next
  case (VDecimal d)
  with assms show ?thesis
    by (simp add: constraints_covered_def check_decimal_cong[of e c])
qed simp_all

text \<open>A value that validation returned validates again, unchanged.\<close>

lemma validated_value_stable:
  assumes "validate_field now c inp = Inr v" "default_ok c"
  shows "coerce (ftyp c) v = Some v \<and> check_constraints (finfo c) v = None"
proof (cases "inp (fname c)")
  case None
  with assms show ?thesis
    by (auto simp: validate_field_def default_ok_def split: default_decl.splits)
next
  case (Some v0)
  with assms(1) have "coerce (ftyp c) v0 = Some v" "check_constraints (finfo c) v = None"
    by (auto simp: validate_field_def split: option.splits)
  with coerce_idem show ?thesis by blast
qed

lemma lookup_field_Some:
  "lookup_field E n = Some e \<Longrightarrow> e \<in> set (model_fields E) \<and> fname e = n"
  by (auto simp: lookup_field_def find_Some_iff)

lemma field_values_names:
  "field_errors now fs inp = [] \<Longrightarrow> map fst (field_values now fs inp) = map fname fs"
  by (induction fs) (auto split: sum.splits)

lemma validate_field_cong:
  "inp (fname f) = inp' (fname f) \<Longrightarrow> validate_field now f inp = validate_field now f inp'"
  by (simp add: validate_field_def)

lemma shared_field_validates:
  assumes cov: "field_covered E c" and dE: "distinct (map fname (model_fields E))"
    and vc: "validate_field now c inp = Inr x" and i: "inp' (fname c) = Some x"
    and e: "e \<in> set (model_fields E)" "fname e = fname c"
  shows "validate_field now' e inp' = Inr x"
proof -
  from cov obtain e' where l: "lookup_field E (fname c) = Some e'"
    and t: "ftyp e' = ftyp c" and cc: "constraints_covered (finfo c) (finfo e')"
    and d: "default_ok c"
    by (auto simp: field_covered_def split: option.splits)
  from lookup_field_Some[OF l] have "e' \<in> set (model_fields E)" "fname e' = fname c" by simp_all
  moreover from dE have "inj_on fname (set (model_fields E))" by (simp add: distinct_map)
  ultimately have "e' = e" using e by (simp add: inj_on_def)
  from validated_value_stable[OF vc d]
  have "coerce (ftyp c) x = Some x" "check_constraints (finfo c) x = None" by simp_all
  with check_covered[OF cc] t \<open>e' = e\<close> i e(2) show ?thesis
    by (simp add: validate_field_def)
qed

text \<open>
  Where the shape is covered by the entity, and the attributes that the shape lacks
  validate from the extra input, the entity is built, and it holds every attribute that
  the shape shares with it, with the value the shape holds.
\<close>

lemma build_round_trip:
  assumes cov: "covers E C" and dE: "distinct (map fname (model_fields E))"
    and dC: "distinct (map fname (model_fields C))"
    and v: "model_validate now C inp = Inr shape"
    and ex: "field_errors now' (own_fields E C) extra = []"
  shows "\<exists>ent. build_entity now' E shape extra = Inr ent \<and>
           (\<forall>a \<in> set (field_names C). a \<in> set (field_names E) \<longrightarrow>
              getattr shape a \<noteq> None \<and> getattr ent a = getattr shape a)"
proof -
  let ?inp' = "extra ++ map_of shape"
  from v have ec: "field_errors now (model_fields C) inp = []"
    and sh: "shape = field_values now (model_fields C) inp" by (simp_all add: model_validate_Inr)
  have names: "map fst shape = map fname (model_fields C)"
    unfolding sh by (rule field_values_names[OF ec])
  have A: "\<exists>x. validate_field now c inp = Inr x \<and> map_of shape (fname c) = Some x"
    if "c \<in> set (model_fields C)" for c
    using getattr_validated[OF v dC that] by (simp add: getattr_def)
  have covered: "field_covered E c"
    if "c \<in> set (model_fields C)" "fname c \<in> set (field_names E)" for c
    using cov that by (simp add: covers_def shared_fields_def list_all_iff)
  have B: "\<exists>x. validate_field now' e ?inp' = Inr x \<and>
               (fname e \<in> set (field_names C) \<longrightarrow> map_of shape (fname e) = Some x)"
    if e: "e \<in> set (model_fields E)" for e
  proof (cases "fname e \<in> set (field_names C)")
    case False
    then have "fname e \<notin> fst ` set shape" using names
      by (metis field_names_def list.set_map)
    then have "map_of shape (fname e) = None" by (simp add: map_of_eq_None_iff)
    then have "?inp' (fname e) = extra (fname e)" by (simp add: map_add_def)
    then have "validate_field now' e ?inp' = validate_field now' e extra"
      by (rule validate_field_cong)
    moreover from False e have "e \<in> set (own_fields E C)" by (simp add: own_fields_def)
    with ex have "\<exists>x. validate_field now' e extra = Inr x" by (simp add: field_errors_Nil_iff)
    ultimately show ?thesis using False by auto
  next
    case True
    then obtain c where c: "c \<in> set (model_fields C)" "fname c = fname e"
      by (auto simp: field_names_def)
    from A[OF c(1)] obtain x where x: "validate_field now c inp = Inr x"
      "map_of shape (fname c) = Some x" by blast
    from e c(2) have "fname c \<in> set (field_names E)" by (auto simp: field_names_def)
    from covered[OF c(1) this] have fc: "field_covered E c" .
    from x(2) have "?inp' (fname c) = Some x" by (simp add: map_add_def)
    from shared_field_validates[where now' = now' and inp' = "?inp'", OF fc dE x(1) this e
        c(2)[symmetric]] x(2) c(2)
    show ?thesis by auto
  qed
  then have ee: "field_errors now' (model_fields E) ?inp' = []"
    by (auto simp: field_errors_Nil_iff)
  then have b: "build_entity now' E shape extra = Inr (field_values now' (model_fields E) ?inp')"
    by (simp add: build_entity_def model_validate_def)
  have "getattr shape a \<noteq> None \<and>
        getattr (field_values now' (model_fields E) ?inp') a = getattr shape a"
    if a: "a \<in> set (field_names C)" "a \<in> set (field_names E)" for a
  proof -
    from a(2) obtain e where e: "e \<in> set (model_fields E)" "fname e = a"
      by (auto simp: field_names_def)
    from B[OF e(1)] a(1) e(2) obtain x where x: "validate_field now' e ?inp' = Inr x"
      "map_of shape a = Some x" by auto
    from field_values_lookup[OF ee dE e(1) x(1)] x(2) e(2) show ?thesis
      by (simp add: getattr_def)
  qed
  with b show ?thesis by blast
qed

lemmas covers_eval = covers_def field_covered_def lookup_field_def constraints_covered_def
  weaker_opt_def default_ok_def shared_fields_def field_names_def fld_def Field_def check_str_def
  too_short_def too_long_def pattern_fails_def check_int_def below_ge_def above_le_def
  check_decimal_def decimal_digit_info_def normalize_dec_def ndigits.simps trailing_zeros.simps
  context_prec_def Decimal_0_00_def

lemma covers_AddressCreate: "covers Address AddressCreate"
  by (simp add: covers_eval Address_def AddressCreate_def)

lemma covers_SellerProfileCreate: "covers SellerProfile SellerProfileCreate"
  by (simp add: covers_eval SellerProfile_def SellerProfileCreate_def)

lemma covers_ProductCreate: "covers Product ProductCreate"
  by (simp add: covers_eval Product_def ProductCreate_def)

lemma covers_CartItemCreate: "covers CartItem CartItemCreate"
  by (simp add: covers_eval CartItem_def CartItemCreate_def)

lemma covers_OrderCreate: "covers Order OrderCreate"
  by (simp add: covers_eval Order_def OrderCreate_def)

lemma covers_DeliveryCreate: "covers Delivery DeliveryCreate"
  by (simp add: covers_eval Delivery_def DeliveryCreate_def)

lemma covers_ProductReviewCreate: "covers ProductReview ProductReviewCreate"
  by (simp add: covers_eval ProductReview_def ProductReviewCreate_def)

lemma covers_UserCreate: "covers User UserCreate"
  by (simp add: covers_eval User_def UserCreate_def)

lemma names_distinct:
  "distinct (map fname (model_fields Address))"
  "distinct (map fname (model_fields AddressCreate))"
  "distinct (map fname (model_fields CartItem))"
  "distinct (map fname (model_fields CartItemCreate))"
  "distinct (map fname (model_fields Delivery))"
  "distinct (map fname (model_fields DeliveryCreate))"
  "distinct (map fname (model_fields Order))"
  "distinct (map fname (model_fields OrderCreate))"
  "distinct (map fname (model_fields Product))"
  "distinct (map fname (model_fields ProductCreate))"
  "distinct (map fname (model_fields ProductReview))"
  "distinct (map fname (model_fields ProductReviewCreate))"
  "distinct (map fname (model_fields SellerProfile))"
  "distinct (map fname (model_fields SellerProfileCreate))"
  "distinct (map fname (model_fields User))"
  "distinct (map fname (model_fields UserCreate))"
  by (simp_all add: fld_def Address_def AddressCreate_def CartItem_def CartItemCreate_def Delivery_def DeliveryCreate_def Order_def OrderCreate_def Product_def ProductCreate_def ProductReview_def ProductReviewCreate_def SellerProfile_def SellerProfileCreate_def User_def UserCreate_def)

text \<open>
  The attributes of each Create shape that are not attributes of its entity: only the
  password of a \<^verbatim>\<open>UserCreate\<close>; a \<^verbatim>\<open>User\<close> holds a \<^verbatim>\<open>password_hash\<close>.
\<close>

lemma unshared_table:
  "map (\<lambda>(n, C, E). (n, unshared C E)) create_shapes =
     [(''UserCreate'', [''password'']), (''AddressCreate'', []), (''SellerProfileCreate'', []),
      (''ProductCreate'', []), (''CartItemCreate'', []), (''OrderCreate'', []),
      (''DeliveryCreate'', []), (''ProductReviewCreate'', [])]"
  by (simp add: create_shapes_def unshared_def field_names_def fld_def
      User_def Address_def SellerProfile_def Product_def CartItem_def Order_def Delivery_def
      ProductReview_def UserCreate_def AddressCreate_def SellerProfileCreate_def
      ProductCreate_def CartItemCreate_def OrderCreate_def DeliveryCreate_def
      ProductReviewCreate_def)

text \<open>
  C7. The claim is that building an entity from a valid Create shape and reading its
  attributes back gives the values of the shape. It fails for \<^verbatim>\<open>UserCreate\<close>: the
  password of the shape cannot be read back from the \<^verbatim>\<open>User\<close> built from it.
\<close>

theorem user_round_trip_counterexample:
  "model_validate 0 UserCreate
     [''email'' \<mapsto> VStr ''a@b.co'', ''password'' \<mapsto> VStr ''12345678'', ''full_name'' \<mapsto> VStr ''A'']
   = Inr [(''email'', VStr ''a@b.co''), (''password'', VStr ''12345678''), (''full_name'', VStr ''A''),
          (''phone'', VNone), (''role'', VUserRole BUYER)] \<and>
   build_entity 0 User
     [(''email'', VStr ''a@b.co''), (''password'', VStr ''12345678''), (''full_name'', VStr ''A''),
      (''phone'', VNone), (''role'', VUserRole BUYER)]
     [''password_hash'' \<mapsto> VStr ''c2NyeXB0AA'']
   = Inr [(''id'', VNone), (''email'', VStr ''a@b.co''), (''password_hash'', VStr ''c2NyeXB0AA''),
          (''full_name'', VStr ''A''), (''phone'', VNone), (''role'', VUserRole BUYER),
          (''is_active'', VBool True), (''created_at'', VDatetime 0), (''updated_at'', VDatetime 0)] \<and>
   getattr [(''email'', VStr ''a@b.co''), (''password'', VStr ''12345678''), (''full_name'', VStr ''A''),
            (''phone'', VNone), (''role'', VUserRole BUYER)] ''password''
     = Some (VStr ''12345678'') \<and>
   getattr [(''id'', VNone), (''email'', VStr ''a@b.co''), (''password_hash'', VStr ''c2NyeXB0AA''),
            (''full_name'', VStr ''A''), (''phone'', VNone), (''role'', VUserRole BUYER),
            (''is_active'', VBool True), (''created_at'', VDatetime 0), (''updated_at'', VDatetime 0)]
     ''password'' = None"
  by (simp add: ev build_entity_def User_def UserCreate_def map_add_def)

text \<open>No \<^verbatim>\<open>User\<close> has a password attribute, however it is made.\<close>

lemma user_has_no_password:
  assumes "model_validate now User inp = Inr u"
  shows "getattr u ''password'' = None"
proof -
  have "''password'' \<notin> fname ` set (model_fields User)" by (simp add: User_def fld_def)
  from field_values_None[OF this] assms show ?thesis
    by (simp add: model_validate_Inr getattr_def)
qed

text \<open>
  C7, amended. For every Create shape, \<^verbatim>\<open>UserCreate\<close> included: from a valid shape, and
  extra input from which the attributes that the shape lacks validate, the entity is
  built, and every attribute of the shape that the entity has reads back from the entity
  with the value the shape holds. The one attribute of a Create shape that its entity
  does not have is the password of \<^verbatim>\<open>UserCreate\<close>.
\<close>

theorem create_round_trip:
  assumes "(n, C, E) \<in> set create_shapes"
    and "model_validate now C inp = Inr shape"
    and "field_errors now' (own_fields E C) extra = []"
  shows "(\<exists>ent. build_entity now' E shape extra = Inr ent \<and>
            (\<forall>a \<in> set (field_names C). a \<in> set (field_names E) \<longrightarrow>
               getattr shape a \<noteq> None \<and> getattr ent a = getattr shape a)) \<and>
         (\<forall>a \<in> set (field_names C). a \<notin> set (field_names E) \<longrightarrow>
            n = ''UserCreate'' \<and> a = ''password'')"
proof -
  from assms(1) have "covers E C \<and> distinct (map fname (model_fields E)) \<and>
      distinct (map fname (model_fields C))"
    unfolding create_shapes_def
    using covers_UserCreate covers_AddressCreate covers_SellerProfileCreate covers_ProductCreate
      covers_CartItemCreate covers_OrderCreate covers_DeliveryCreate covers_ProductReviewCreate
      names_distinct by auto
  then have 1: "\<exists>ent. build_entity now' E shape extra = Inr ent \<and>
            (\<forall>a \<in> set (field_names C). a \<in> set (field_names E) \<longrightarrow>
               getattr shape a \<noteq> None \<and> getattr ent a = getattr shape a)"
    using build_round_trip[OF _ _ _ assms(2,3)] by blast
  have 2: "n = ''UserCreate'' \<and> a = ''password''"
    if "a \<in> set (field_names C)" "a \<notin> set (field_names E)" for a
  proof -
    from that have "a \<in> set (unshared C E)" by (simp add: unshared_def)
    moreover from assms(1) have "(n, unshared C E) \<in>
        set (map (\<lambda>(n, C, E). (n, unshared C E)) create_shapes)" by force
    ultimately show ?thesis unfolding unshared_table by auto
  qed
  from 1 2 show ?thesis by blast
qed

theorem create_round_trip_witness:
  "(''UserCreate'', UserCreate, User) \<in> set create_shapes \<and>
   model_validate 0 UserCreate
     [''email'' \<mapsto> VStr ''a@b.co'', ''password'' \<mapsto> VStr ''12345678'', ''full_name'' \<mapsto> VStr ''A'']
   = Inr [(''email'', VStr ''a@b.co''), (''password'', VStr ''12345678''), (''full_name'', VStr ''A''),
          (''phone'', VNone), (''role'', VUserRole BUYER)] \<and>
   field_errors 1 (own_fields User UserCreate) [''password_hash'' \<mapsto> VStr ''c2NyeXB0AA''] = [] \<and>
   (\<exists>ent. build_entity 1 User
       [(''email'', VStr ''a@b.co''), (''password'', VStr ''12345678''), (''full_name'', VStr ''A''),
        (''phone'', VNone), (''role'', VUserRole BUYER)]
       [''password_hash'' \<mapsto> VStr ''c2NyeXB0AA''] = Inr ent \<and>
      getattr ent ''email'' = Some (VStr ''a@b.co'') \<and>
      getattr ent ''full_name'' = Some (VStr ''A'') \<and>
      getattr ent ''phone'' = Some VNone \<and>
      getattr ent ''role'' = Some (VUserRole BUYER)) \<and>
   (''ProductCreate'', ProductCreate, Product) \<in> set create_shapes \<and>
   model_validate 0 ProductCreate
     [''category_id'' \<mapsto> VInt 3, ''name'' \<mapsto> VStr ''Kopi'', ''description'' \<mapsto> VStr ''Arabika'',
      ''price'' \<mapsto> VStr ''99.99'', ''weight_kg'' \<mapsto> VStr ''0.250'']
   = Inr [(''category_id'', VInt 3), (''name'', VStr ''Kopi''), (''description'', VStr ''Arabika''),
          (''price'', VDecimal \<lparr>dsign = False, dcoeff = 9999, dexp = - 2\<rparr>),
          (''original_price'', VNone), (''stock_quantity'', VInt 0),
          (''min_order_quantity'', VInt 1),
          (''weight_kg'', VDecimal \<lparr>dsign = False, dcoeff = 250, dexp = - 3\<rparr>),
          (''dimensions'', VDict []), (''images'', VList []), (''specifications'', VDict []),
          (''tags'', VList [])] \<and>
   field_errors 1 (own_fields Product ProductCreate) [''seller_id'' \<mapsto> VInt 7] = [] \<and>
   (\<exists>ent. build_entity 1 Product
       [(''category_id'', VInt 3), (''name'', VStr ''Kopi''), (''description'', VStr ''Arabika''),
        (''price'', VDecimal \<lparr>dsign = False, dcoeff = 9999, dexp = - 2\<rparr>),
        (''original_price'', VNone), (''stock_quantity'', VInt 0),
        (''min_order_quantity'', VInt 1),
        (''weight_kg'', VDecimal \<lparr>dsign = False, dcoeff = 250, dexp = - 3\<rparr>),
        (''dimensions'', VDict []), (''images'', VList []), (''specifications'', VDict []),
        (''tags'', VList [])]
       [''seller_id'' \<mapsto> VInt 7] = Inr ent \<and>
      getattr ent ''price'' = Some (VDecimal \<lparr>dsign = False, dcoeff = 9999, dexp = - 2\<rparr>) \<and>
      getattr ent ''weight_kg'' = Some (VDecimal \<lparr>dsign = False, dcoeff = 250, dexp = - 3\<rparr>) \<and>
      getattr ent ''name'' = Some (VStr ''Kopi''))"
proof -
  let ?uinp = "[''email'' \<mapsto> VStr ''a@b.co'', ''password'' \<mapsto> VStr ''12345678'',
                ''full_name'' \<mapsto> VStr ''A'']"
  let ?ushape = "[(''email'', VStr ''a@b.co''), (''password'', VStr ''12345678''),
                  (''full_name'', VStr ''A''), (''phone'', VNone), (''role'', VUserRole BUYER)]"
  let ?inp = "[''category_id'' \<mapsto> VInt 3, ''name'' \<mapsto> VStr ''Kopi'', ''description'' \<mapsto> VStr ''Arabika'',
      ''price'' \<mapsto> VStr ''99.99'', ''weight_kg'' \<mapsto> VStr ''0.250'']"
  let ?shape = "[(''category_id'', VInt 3), (''name'', VStr ''Kopi''), (''description'', VStr ''Arabika''),
          (''price'', VDecimal \<lparr>dsign = False, dcoeff = 9999, dexp = - 2\<rparr>),
          (''original_price'', VNone), (''stock_quantity'', VInt 0),
          (''min_order_quantity'', VInt 1),
          (''weight_kg'', VDecimal \<lparr>dsign = False, dcoeff = 250, dexp = - 3\<rparr>),
          (''dimensions'', VDict []), (''images'', VList []), (''specifications'', VDict []),
          (''tags'', VList [])]"
  have um: "(''UserCreate'', UserCreate, User) \<in> set create_shapes"
    and m: "(''ProductCreate'', ProductCreate, Product) \<in> set create_shapes"
    by (simp_all add: create_shapes_def)
  have uv: "model_validate 0 UserCreate ?uinp = Inr ?ushape"
    by (simp add: ev UserCreate_def)
  have uo: "field_errors 1 (own_fields User UserCreate) [''password_hash'' \<mapsto> VStr ''c2NyeXB0AA''] = []"
    by (simp add: own_fields_def field_names_def User_def UserCreate_def ev)
  have v: "model_validate 0 ProductCreate ?inp = Inr ?shape"
    by (simp add: ev ProductCreate_def)
  have o: "field_errors 1 (own_fields Product ProductCreate) [''seller_id'' \<mapsto> VInt 7] = []"
    by (simp add: own_fields_def field_names_def Product_def ProductCreate_def ev)
  have un: "''email'' \<in> set (field_names UserCreate)" "''full_name'' \<in> set (field_names UserCreate)"
    "''phone'' \<in> set (field_names UserCreate)" "''role'' \<in> set (field_names UserCreate)"
    "''email'' \<in> set (field_names User)" "''full_name'' \<in> set (field_names User)"
    "''phone'' \<in> set (field_names User)" "''role'' \<in> set (field_names User)"
    by (simp_all add: field_names_def UserCreate_def User_def fld_def)
  have pn: "''price'' \<in> set (field_names ProductCreate)" "''weight_kg'' \<in> set (field_names ProductCreate)"
    "''name'' \<in> set (field_names ProductCreate)"
    "''price'' \<in> set (field_names Product)" "''weight_kg'' \<in> set (field_names Product)"
    "''name'' \<in> set (field_names Product)"
    by (simp_all add: field_names_def ProductCreate_def Product_def fld_def)
  from create_round_trip[OF um uv uo] obtain uent
    where ub: "build_entity 1 User ?ushape [''password_hash'' \<mapsto> VStr ''c2NyeXB0AA''] = Inr uent"
      and ur: "\<forall>a \<in> set (field_names UserCreate). a \<in> set (field_names User) \<longrightarrow>
                 getattr uent a = getattr ?ushape a" by blast
  from ur un have "getattr uent ''email'' = getattr ?ushape ''email''"
    "getattr uent ''full_name'' = getattr ?ushape ''full_name''"
    "getattr uent ''phone'' = getattr ?ushape ''phone''"
    "getattr uent ''role'' = getattr ?ushape ''role''" by blast+
  then have ug: "getattr uent ''email'' = Some (VStr ''a@b.co'')"
    "getattr uent ''full_name'' = Some (VStr ''A'')" "getattr uent ''phone'' = Some VNone"
    "getattr uent ''role'' = Some (VUserRole BUYER)" by (simp_all add: getattr_def)
  from create_round_trip[OF m v o] obtain ent
    where b: "build_entity 1 Product ?shape [''seller_id'' \<mapsto> VInt 7] = Inr ent"
      and r: "\<forall>a \<in> set (field_names ProductCreate). a \<in> set (field_names Product) \<longrightarrow>
                getattr ent a = getattr ?shape a" by blast
  from r pn have "getattr ent ''price'' = getattr ?shape ''price''"
    "getattr ent ''weight_kg'' = getattr ?shape ''weight_kg''"
    "getattr ent ''name'' = getattr ?shape ''name''" by blast+
  then have g: "getattr ent ''price'' = Some (VDecimal \<lparr>dsign = False, dcoeff = 9999, dexp = - 2\<rparr>)"
    "getattr ent ''weight_kg'' = Some (VDecimal \<lparr>dsign = False, dcoeff = 250, dexp = - 3\<rparr>)"
    "getattr ent ''name'' = Some (VStr ''Kopi'')" by (simp_all add: getattr_def)
  from um uv uo ub ug m v o b g show ?thesis by blast
qed

end
